theory Spec2Isabelle
  imports Main
begin

section \<open>Values shared by the whole package\<close>

text \<open>
  A Go \<open>error\<close> is represented by its text (\<open>err.Error()\<close>); \<open>nil\<close> is \<open>None\<close>.
  An \<open>*os.File\<close> is an optional descriptor number; the nil pointer is \<open>None\<close>.
\<close>

type_synonym error = string
type_synonym os_file = nat

text \<open>
  A call either returns a value, or the goroutine does not come back from it: it
  panicked, the process left through \<open>os.Exit\<close>, or it is parked forever waiting for
  a signal.
\<close>

datatype halt = Panicked error | Exited int | Blocked

datatype 'a res = Ret 'a | Halt halt

text \<open>\<open>exec.Cmd\<close>, with the fields that \<open>Run\<close> fills in.\<close>

record Cmd =
  Path :: string
  Args :: "string list"
  Env :: "string list"
  Stdin :: "os_file option"
  Stdout :: "os_file option"
  Stderr :: "os_file option"

text \<open>What the process does to the outside, in the order in which it does it.\<close>

datatype event =
    WorkerStart
  | WorkerStop
  | WorkerRestart
  | WriteFile string string
  | FileClose "os_file option"
  | OsRemove string
  | WriteString "os_file option" string
  | OsUnsetenv string
  | CmdStart Cmd
  | ProcessRelease
  | OsExit int

text \<open>
  The state a process works on: its environment block, argument vector and working
  directory, the file system with the paths the operating system refuses to create or
  delete, the descriptors it holds, how the operating system answers \<open>cmd.Start\<close>, the
  state of the workload, the choices the scheduler will make between two runnable
  goroutines, and the log of events. The package reads \<open>os.Args[0]\<close> when it is
  initialised, so a process that got as far as \<open>Run\<close> has a non-empty argument vector.
\<close>

record 'w world =
  env :: "(string \<times> string) list"
  args :: "string list"
  cwd :: "string option"
  getpid :: int
  files :: "string \<rightharpoonup> string"
  readonly :: "string set"
  open_files :: "os_file set"
  next_fd :: os_file
  start_result :: "error option"
  wstate :: 'w
  sched :: "bool list"
  trace :: "event list"

definition emit :: "event \<Rightarrow> 'w world \<Rightarrow> 'w world" where
  "emit e w = w\<lparr>trace := trace w @ [e]\<rparr>"

section \<open>Library functions the package calls\<close>

subsection \<open>strconv.Itoa\<close>

definition digit_char :: "nat \<Rightarrow> char" where
  "digit_char d = ''0123456789'' ! d"

function format_nat :: "nat \<Rightarrow> string" where
  "format_nat n = (if n < 10 then [digit_char n] else format_nat (n div 10) @ [digit_char (n mod 10)])"
  by pat_completeness auto
termination
  by (relation "measure id") auto

declare format_nat.simps [simp del]

definition Itoa :: "int \<Rightarrow> string" where
  "Itoa i = (if i < 0 then CHR ''-'' # format_nat (nat (- i)) else format_nat (nat i))"

subsection \<open>path/filepath on a Unix system\<close>

definition IsAbs :: "string \<Rightarrow> bool" where
  "IsAbs path = (case path of [] \<Rightarrow> False | c # _ \<Rightarrow> c = CHR ''/'')"

text \<open>The elements of a path: the pieces between separators, empty ones included.\<close>

fun elements :: "string \<Rightarrow> string \<Rightarrow> string list" where
  "elements cur [] = [rev cur]"
| "elements cur (c # cs) =
     (if c = CHR ''/'' then rev cur # elements [] cs else elements (c # cur) cs)"

text \<open>
  \<open>Clean\<close> reads the elements from left to right and keeps the cleaned elements on a
  stack (innermost first): empty elements and \<open>.\<close> are dropped; \<open>..\<close> removes the element
  before it, is dropped at the root, and is kept in front of a relative path.
\<close>

fun clean_elems :: "bool \<Rightarrow> string list \<Rightarrow> string list \<Rightarrow> string list" where
  "clean_elems rooted out [] = rev out"
| "clean_elems rooted out (e # es) =
     (if e = [] \<or> e = ''.'' then clean_elems rooted out es
      else if e = ''..'' then
        (case out of
           [] \<Rightarrow> if rooted then clean_elems rooted [] es else clean_elems rooted [''..''] es
         | e1 # below \<Rightarrow>
             if e1 = ''..'' then clean_elems rooted (''..'' # out) es
             else clean_elems rooted below es)
      else clean_elems rooted (e # out) es)"

fun join_elems :: "string list \<Rightarrow> string" where
  "join_elems [] = []"
| "join_elems [e] = e"
| "join_elems (e # es) = e @ CHR ''/'' # join_elems es"

definition Clean :: "string \<Rightarrow> string" where
  "Clean path =
     (let out = (if IsAbs path then ''/'' else []) @
                join_elems (clean_elems (IsAbs path) [] (elements [] path))
      in if out = [] then ''.'' else out)"

definition Join :: "string \<Rightarrow> string \<Rightarrow> string" where
  "Join a b =
     (if a = [] \<and> b = [] then []
      else if a = [] then Clean b
      else if b = [] then Clean a
      else Clean (a @ CHR ''/'' # b))"

text \<open>
  \<open>filepath.Abs\<close>: an absolute path is cleaned; a relative one is joined to the working
  directory, and the call fails when the working directory cannot be determined.
\<close>

definition Abs :: "string \<Rightarrow> 'w world \<Rightarrow> error + string" where
  "Abs path w =
     (if IsAbs path then Inr (Clean path)
      else case cwd w of
             None \<Rightarrow> Inl ''getwd: no such file or directory''
           | Some wd \<Rightarrow> Inr (Join wd path))"

subsection \<open>os\<close>

text \<open>
  \<open>(*os.File).Close\<close> and \<open>(*os.File).WriteString\<close> on a nil file return an error and do
  nothing else; the package discards what they return.
\<close>

definition File_Close :: "os_file option \<Rightarrow> 'w world \<Rightarrow> 'w world" where
  "File_Close f w =
     (case f of
        None \<Rightarrow> emit (FileClose None) w
      | Some fd \<Rightarrow> emit (FileClose (Some fd)) (w\<lparr>open_files := open_files w - {fd}\<rparr>))"

definition File_WriteString :: "os_file option \<Rightarrow> string \<Rightarrow> 'w world \<Rightarrow> 'w world" where
  "File_WriteString f s w = emit (WriteString f s) w"

text \<open>
  \<open>os.Remove\<close>: fails when nothing is at the path or when the operating system refuses
  the deletion; otherwise the file is gone.
\<close>

definition os_Remove :: "string \<Rightarrow> 'w world \<Rightarrow> error option \<times> 'w world" where
  "os_Remove path w =
     (if files w path = None then (Some ''no such file or directory'', emit (OsRemove path) w)
      else if path \<in> readonly w then (Some ''permission denied'', emit (OsRemove path) w)
      else (None, emit (OsRemove path) (w\<lparr>files := (files w)(path := None)\<rparr>)))"

definition os_Getenv :: "string \<Rightarrow> 'w world \<Rightarrow> string" where
  "os_Getenv key w = (case map_of (env w) key of None \<Rightarrow> [] | Some v \<Rightarrow> v)"

definition os_Unsetenv :: "string \<Rightarrow> 'w world \<Rightarrow> 'w world" where
  "os_Unsetenv key w = emit (OsUnsetenv key) (w\<lparr>env := filter (\<lambda>kv. fst kv \<noteq> key) (env w)\<rparr>)"

definition os_Environ :: "'w world \<Rightarrow> string list" where
  "os_Environ w = map (\<lambda>kv. fst kv @ CHR ''='' # snd kv) (env w)"

definition os_Exit :: "int \<Rightarrow> 'w world \<Rightarrow> 'a res \<times> 'w world" where
  "os_Exit code w = (Halt (Exited code), emit (OsExit code) w)"

section \<open>The PID record\<close>

record Pid =
  ServicesName :: string
  SavePath :: string
  Pid :: int
  File :: "os_file option"

text \<open>
  Modelled from the spec: the helper \<open>write(path, content)\<close> that \<open>Save\<close> calls (named
  \<open>write_file\<close> here) is declared outside the sources at hand. The specification says of
  it that it opens or creates the file for writing, writes the content, so that the file
  then holds exactly that text, and hands back the open file; it fails with an I/O error
  when the directory is inaccessible.
\<close>

definition write_file :: "string \<Rightarrow> string \<Rightarrow> 'w world \<Rightarrow> (os_file option \<times> error option) \<times> 'w world" where
  "write_file path content w =
     (if path \<in> readonly w then ((None, Some ''permission denied''), w)
      else ((Some (next_fd w), None),
            emit (WriteFile path content)
              (w\<lparr>files := (files w)(path \<mapsto> content),
                 open_files := insert (next_fd w) (open_files w),
                 next_fd := Suc (next_fd w)\<rparr>)))"

definition SaveFilename :: "Pid \<Rightarrow> 'w world \<Rightarrow> string res" where
  "SaveFilename pid w =
     (case Abs (SavePath pid) w of
        Inl err \<Rightarrow> Halt (Panicked err)
      | Inr path \<Rightarrow> Ret (path @ ''/'' @ ServicesName pid @ ''.pid''))"

text \<open>
  \<open>Save\<close> has a value receiver. \<open>Save_body\<close> is the method body working on its own copy
  of the record; it gives the copy as it stands at the return, and the error. \<open>Save\<close> is
  the call as the caller sees it: the copy is dropped, only the error comes back.
\<close>

definition Save_body :: "Pid \<Rightarrow> 'w world \<Rightarrow> (Pid \<times> error option) res \<times> 'w world" where
  "Save_body pid w =
     (case SaveFilename pid w of
        Halt h \<Rightarrow> (Halt h, w)
      | Ret path \<Rightarrow>
          (case write_file path (Itoa (Pid pid)) w of
             ((f, err), w') \<Rightarrow> (Ret (pid\<lparr>File := f\<rparr>, err), w')))"

definition Save :: "Pid \<Rightarrow> 'w world \<Rightarrow> error option res \<times> 'w world" where
  "Save pid w =
     (case Save_body pid w of
        (Halt h, w') \<Rightarrow> (Halt h, w')
      | (Ret (copy, err), w') \<Rightarrow> (Ret err, w'))"

definition Remove :: "Pid \<Rightarrow> 'w world \<Rightarrow> unit res \<times> 'w world" where
  "Remove pid w =
     (let w1 = File_Close (File pid) w
      in case SaveFilename pid w1 of
           Halt h \<Rightarrow> (Halt h, w1)
         | Ret path \<Rightarrow> (Ret (), snd (os_Remove path w1)))"

section \<open>The workload and the process\<close>

text \<open>
  The \<open>Worker\<close> interface. The workload keeps a state of its own, of type \<open>'w\<close>; its
  operations change that state only, and \<open>Stop\<close> and \<open>Restart\<close> return an error or nil.
\<close>

record 'w Worker =
  PidSavePath :: string
  Name :: string
  Start :: "'w \<Rightarrow> 'w"
  Stop :: "'w \<Rightarrow> error option \<times> 'w"
  Restart :: "'w \<Rightarrow> error option \<times> 'w"

text \<open>
  Modelled from the spec: the constants \<open>SIGUSR1\<close> and \<open>SIGUSR2\<close> are declared outside the
  sources at hand. The specification calls them the first and the second user-defined
  signal of the platform; they are two signals, different from the interrupt signal.
\<close>

datatype signal = Interrupt | SIGUSR1 | SIGUSR2 | Signal nat

text \<open>
  A registered handler is a closure over the process pointer: it reads the fields of
  the process when it is called. The three defaults are named; any other handler is a
  function on the state.
\<close>

datatype 'w handler =
    InterruptHandle
  | StopHandle
  | RestartHandle
  | Custom "'w world \<Rightarrow> unit res \<times> 'w world"

record 'w Process =
  Pipeline :: "nat \<Rightarrow> os_file option"
  PidRec :: Pid
  worker :: "'w Worker"
  DaemonTag :: string
  SignalHandlers :: "signal \<rightharpoonup> 'w handler"

definition EnvName :: string where
  "EnvName = ''DAEMON''"

definition On :: "signal \<Rightarrow> 'w handler \<Rightarrow> 'w Process \<Rightarrow> 'w Process" where
  "On sig fn process = process\<lparr>SignalHandlers := (SignalHandlers process)(sig \<mapsto> fn)\<rparr>"

definition registerDefaultInterruptHandle :: "'w Process \<Rightarrow> 'w Process" where
  "registerDefaultInterruptHandle process = On Interrupt InterruptHandle process"

definition registerDefaultStopHandle :: "'w Process \<Rightarrow> 'w Process" where
  "registerDefaultStopHandle process = On SIGUSR1 StopHandle process"

definition registerDefaultRestartHandle :: "'w Process \<Rightarrow> 'w Process" where
  "registerDefaultRestartHandle process = On SIGUSR2 RestartHandle process"

definition NewProcess :: "'w Worker \<Rightarrow> 'w world \<Rightarrow> 'w Process" where
  "NewProcess wk w =
     registerDefaultRestartHandle (registerDefaultStopHandle (registerDefaultInterruptHandle
       \<lparr>Pipeline = (\<lambda>i. if i < 3 then Some i else None),
        PidRec = \<lparr>ServicesName = Name wk, SavePath = PidSavePath wk, Pid = getpid w, File = None\<rparr>,
        worker = wk,
        DaemonTag = EnvName,
        SignalHandlers = Map.empty\<rparr>))"

definition SetPipeline :: "os_file option list \<Rightarrow> 'w Process \<Rightarrow> 'w Process" where
  "SetPipeline pipes process =
     (let pipes = (if length pipes > 3 then take 3 pipes else pipes)
      in process\<lparr>Pipeline := (\<lambda>i. if i < length pipes then pipes ! i else Pipeline process i)\<rparr>)"

definition SetDaemonTag :: "string \<Rightarrow> 'w Process \<Rightarrow> 'w Process" where
  "SetDaemonTag name process = process\<lparr>DaemonTag := name\<rparr>"

subsection \<open>Calls into the workload\<close>

definition call_Stop :: "'w Process \<Rightarrow> 'w world \<Rightarrow> error option \<times> 'w world" where
  "call_Stop process w =
     (case Stop (worker process) (wstate w) of
        (err, s) \<Rightarrow> (err, emit WorkerStop (w\<lparr>wstate := s\<rparr>)))"

definition call_Restart :: "'w Process \<Rightarrow> 'w world \<Rightarrow> error option \<times> 'w world" where
  "call_Restart process w =
     (case Restart (worker process) (wstate w) of
        (err, s) \<Rightarrow> (err, emit WorkerRestart (w\<lparr>wstate := s\<rparr>)))"

text \<open>
  \<open>go process.worker.Start()\<close>: the goroutine is launched and nobody waits for it. The
  launch is an event; what \<open>Start\<close> does to the workload counts from the launch on.
\<close>

definition go_Start :: "'w Process \<Rightarrow> 'w world \<Rightarrow> 'w world" where
  "go_Start process w = emit WorkerStart (w\<lparr>wstate := Start (worker process) (wstate w)\<rparr>)"

subsection \<open>The handlers for the interrupt and the stop signal\<close>

definition interrupt_handle :: "'w Process \<Rightarrow> 'w world \<Rightarrow> unit res \<times> 'w world" where
  "interrupt_handle process w =
     (case call_Stop process w of
        (err, w1) \<Rightarrow>
          (let w2 = (case err of
                       None \<Rightarrow> w1
                     | Some e \<Rightarrow> File_WriteString (Pipeline process 1) e w1)
           in case Remove (PidRec process) w2 of
                (Halt h, w3) \<Rightarrow> (Halt h, w3)
              | (Ret u, w3) \<Rightarrow> os_Exit 0 w3))"

definition stop_handle :: "'w Process \<Rightarrow> 'w world \<Rightarrow> unit res \<times> 'w world" where
  "stop_handle process w =
     (case call_Stop process w of
        (err, w1) \<Rightarrow>
          (let w2 = (case err of
                       None \<Rightarrow> w1
                     | Some e \<Rightarrow> File_WriteString (Pipeline process 1) e w1)
           in case Remove (PidRec process) w2 of
                (Halt h, w3) \<Rightarrow> (Halt h, w3)
              | (Ret u, w3) \<Rightarrow> os_Exit 0 w3))"

subsection \<open>Run\<close>

definition IsChild :: "'w Process \<Rightarrow> 'w world \<Rightarrow> bool" where
  "IsChild process w = (os_Getenv (DaemonTag process) w = ''true'')"

text \<open>
  \<open>exec.Command(name, arg...)\<close>: the command has the name as its path and the name
  followed by the arguments as its argument vector. (For a name without a separator the
  library looks the name up in the search path; the command is kept here as it was asked
  for.)
\<close>

definition Command :: "string \<Rightarrow> string list \<Rightarrow> Cmd" where
  "Command name arg =
     \<lparr>Path = name, Args = name # arg, Env = [], Stdin = None, Stdout = None, Stderr = None\<rparr>"

definition Cmd_Start :: "Cmd \<Rightarrow> 'w world \<Rightarrow> error option \<times> 'w world" where
  "Cmd_Start cmd w = (start_result w, emit (CmdStart cmd) w)"

text \<open>
  \<open>Process.Release\<close> on a Unix system forgets the child and returns nil, always.
\<close>

definition Process_Release :: "'w world \<Rightarrow> error option \<times> 'w world" where
  "Process_Release w = (None, emit ProcessRelease w)"

text \<open>
  The second half of \<open>Run\<close>, taken by the launcher. The call
  \<open>exec.Command(os.Args[0], os.Args[1:]...)\<close> needs a first argument; on an empty
  argument vector, which no process of this package has, it faults.
\<close>

definition Run_parent :: "'w Process \<Rightarrow> 'w world \<Rightarrow> error option res \<times> 'w world" where
  "Run_parent process w =
     (case args w of
        [] \<Rightarrow> (Halt (Panicked ''slice bounds out of range [1:0]''), w)
      | arg0 # rest \<Rightarrow>
          (let cmd = Command arg0 rest;
               cmd = cmd\<lparr>Env := os_Environ w @ [DaemonTag process @ ''=true'']\<rparr>;
               cmd = cmd\<lparr>Stdin := Pipeline process 0,
                         Stdout := Pipeline process 1,
                         Stderr := Pipeline process 2\<rparr>
           in case Cmd_Start cmd w of
                (Some err, w1) \<Rightarrow> (Ret (Some err), w1)
              | (None, w1) \<Rightarrow>
                  (case Process_Release w1 of (r, w2) \<Rightarrow> (Ret r, w2))))"

text \<open>
  \<open>Run\<close>, with the signal loop it enters given as \<open>listen\<close>. The loop has no exit, so
  nothing comes back from it and the final \<open>return nil\<close> is never reached.
\<close>

definition Run_with ::
  "('w world \<Rightarrow> halt \<times> 'w world) \<Rightarrow> 'w Process \<Rightarrow> 'w world \<Rightarrow> error option res \<times> 'w world" where
  "Run_with listen process w =
     (if IsChild process w then
        (case Save (PidRec process) w of
           (Halt h, w1) \<Rightarrow> (Halt h, w1)
         | (Ret (Some err), w1) \<Rightarrow> (Ret (Some err), w1)
         | (Ret None, w1) \<Rightarrow>
             (case listen (go_Start process w1) of (h, w2) \<Rightarrow> (Halt h, w2)))
      else Run_parent process w)"

subsection \<open>The handler for the restart signal\<close>

text \<open>
  After removing the PID record the handler runs as two goroutines. The handler's own
  goroutine unsets the tag, calls \<open>Run\<close>, reports its error and receives from \<open>done\<close>;
  the other one calls \<open>Restart\<close>, reports its error and sends on \<open>done\<close>. The channel
  is unbuffered, so the send and the receive happen together, and \<open>os.Exit(0)\<close> follows.
  Each goroutine is a little machine; its program counter carries the local \<open>err\<close>.
\<close>

datatype main_pc = M_Unsetenv | M_Run | M_Report "error option" | M_Recv

datatype go_pc = G_Restart | G_Report "error option" | G_Send

definition main_step ::
  "('w world \<Rightarrow> error option res \<times> 'w world) \<Rightarrow> 'w Process \<Rightarrow> main_pc \<Rightarrow> 'w world
     \<Rightarrow> main_pc res \<times> 'w world" where
  "main_step run process pc w =
     (case pc of
        M_Unsetenv \<Rightarrow> (Ret M_Run, os_Unsetenv (DaemonTag process) w)
      | M_Run \<Rightarrow>
          (case run w of
             (Halt h, w1) \<Rightarrow> (Halt h, w1)
           | (Ret err, w1) \<Rightarrow> (Ret (M_Report err), w1))
      | M_Report err \<Rightarrow>
          (Ret M_Recv,
           case err of
             None \<Rightarrow> w
           | Some e \<Rightarrow> File_WriteString (Pipeline process 1) e w)
      | M_Recv \<Rightarrow> (Ret M_Recv, w))"

definition go_step :: "'w Process \<Rightarrow> go_pc \<Rightarrow> 'w world \<Rightarrow> go_pc \<times> 'w world" where
  "go_step process pc w =
     (case pc of
        G_Restart \<Rightarrow> (case call_Restart process w of (err, w1) \<Rightarrow> (G_Report err, w1))
      | G_Report err \<Rightarrow>
          (G_Send,
           case err of
             None \<Rightarrow> w
           | Some e \<Rightarrow> File_WriteString (Pipeline process 1) e w)
      | G_Send \<Rightarrow> (G_Send, w))"

fun main_rank :: "main_pc \<Rightarrow> nat" where
  "main_rank M_Unsetenv = 3"
| "main_rank M_Run = 2"
| "main_rank (M_Report err) = 1"
| "main_rank M_Recv = 0"

fun go_rank :: "go_pc \<Rightarrow> nat" where
  "go_rank G_Restart = 2"
| "go_rank (G_Report err) = 1"
| "go_rank G_Send = 0"

text \<open>
  Which goroutine moves next is the scheduler's choice (\<open>True\<close>: the handler's own),
  unless only one of them can move. A panic or exit in one goroutine ends the process.
\<close>

definition pick_main :: "main_pc \<Rightarrow> go_pc \<Rightarrow> 'w world \<Rightarrow> bool" where
  "pick_main mpc gpc w =
     (if gpc = G_Send then True
      else if mpc = M_Recv then False
      else (case sched w of [] \<Rightarrow> True | b # bs \<Rightarrow> b))"

definition tick :: "'w world \<Rightarrow> 'w world" where
  "tick w = w\<lparr>sched := tl (sched w)\<rparr>"

function restart_threads ::
  "('w world \<Rightarrow> error option res \<times> 'w world) \<Rightarrow> 'w Process \<Rightarrow> main_pc \<Rightarrow> go_pc \<Rightarrow> 'w world
     \<Rightarrow> unit res \<times> 'w world" where
  "restart_threads run process mpc gpc w =
     (if mpc = M_Recv \<and> gpc = G_Send then os_Exit 0 w
      else if pick_main mpc gpc w then
        (case main_step run process mpc (tick w) of
           (Halt h, w1) \<Rightarrow> (Halt h, w1)
         | (Ret mpc1, w1) \<Rightarrow> restart_threads run process mpc1 gpc w1)
      else
        (case go_step process gpc (tick w) of
           (gpc1, w1) \<Rightarrow> restart_threads run process mpc gpc1 w1))"
  by pat_completeness auto

termination
  apply (relation "measure (\<lambda>(run, process, mpc, gpc, w). main_rank mpc + go_rank gpc)")
    apply simp
   apply (case_tac mpc; case_tac gpc;
          auto simp: main_step_def pick_main_def split: prod.splits res.splits)
  apply (case_tac gpc; auto simp: go_step_def pick_main_def split: prod.splits)
  done

declare restart_threads.simps [simp del]

definition restart_handle ::
  "('w world \<Rightarrow> error option res \<times> 'w world) \<Rightarrow> 'w Process \<Rightarrow> 'w world \<Rightarrow> unit res \<times> 'w world" where
  "restart_handle run process w =
     (case Remove (PidRec process) w of
        (Halt h, w1) \<Rightarrow> (Halt h, w1)
      | (Ret u, w1) \<Rightarrow> restart_threads run process M_Unsetenv G_Restart w1)"

subsection \<open>The signal loop\<close>

definition call_handler ::
  "('w world \<Rightarrow> error option res \<times> 'w world) \<Rightarrow> 'w Process \<Rightarrow> 'w handler \<Rightarrow> 'w world
     \<Rightarrow> unit res \<times> 'w world" where
  "call_handler run process handler w =
     (case handler of
        InterruptHandle \<Rightarrow> interrupt_handle process w
      | StopHandle \<Rightarrow> stop_handle process w
      | RestartHandle \<Rightarrow> restart_handle run process w
      | Custom fn \<Rightarrow> fn w)"

text \<open>
  \<open>Listen\<close> on the signals that are going to arrive, in their order. A handler that
  calls \<open>Run\<close> finds the signals that are still to come. When no signal is left the loop
  waits forever.
\<close>

primrec Listen :: "'w Process \<Rightarrow> signal list \<Rightarrow> 'w world \<Rightarrow> halt \<times> 'w world" where
  "Listen process [] w = (Blocked, w)"
| "Listen process (received # sigs) w =
     (case SignalHandlers process received of
        None \<Rightarrow> Listen process sigs w
      | Some handler \<Rightarrow>
          (case call_handler (Run_with (Listen process sigs) process) process handler w of
             (Halt h, w1) \<Rightarrow> (h, w1)
           | (Ret u, w1) \<Rightarrow> Listen process sigs w1))"

definition Run :: "'w Process \<Rightarrow> signal list \<Rightarrow> 'w world \<Rightarrow> error option res \<times> 'w world" where
  "Run process sigs w = Run_with (Listen process sigs) process w"

section \<open>A concrete service\<close>

text \<open>
  The service of the example program: name \<open>http\<close>, PID directory \<open>./\<close>. Its \<open>Stop\<close>
  reports an error, its \<open>Restart\<close> does not; both count their calls.
\<close>

definition http_worker :: "nat Worker" where
  "http_worker =
     \<lparr>PidSavePath = ''./'', Name = ''http'', Start = (\<lambda>n. n),
      Stop = (\<lambda>n. (Some ''shutdown failed'', Suc n)),
      Restart = (\<lambda>n. (None, Suc n))\<rparr>"

text \<open>The background process right after it was started, before \<open>Run\<close>.\<close>

definition child_world :: "nat world" where
  "child_world =
     \<lparr>env = [(''HOME'', ''/root''), (''DAEMON'', ''true'')],
      args = [''/usr/bin/httpd'', ''start''],
      cwd = Some ''/srv/app'',
      getpid = 4242,
      files = Map.empty,
      readonly = {},
      open_files = {0, 1, 2},
      next_fd = 3,
      start_result = None,
      wstate = 0,
      sched = [True, False],
      trace = []\<rparr>"

definition http_process :: "nat Process" where
  "http_process = NewProcess http_worker child_world"

text \<open>The same process when its working directory has been deleted under it.\<close>

definition orphan_world :: "nat world" where
  "orphan_world = child_world\<lparr>cwd := None\<rparr>"

text \<open>The same process when a PID file is there and the directory is read-only.\<close>

definition locked_world :: "nat world" where
  "locked_world =
     child_world\<lparr>files := [''/srv/app/http.pid'' \<mapsto> ''977''],
                 readonly := {''/srv/app/http.pid''}\<rparr>"

text \<open>The foreground process that launches the service.\<close>

definition parent_world :: "nat world" where
  "parent_world = child_world\<lparr>env := [(''HOME'', ''/root'')]\<rparr>"

text \<open>The same process after it changed its working directory.\<close>

definition moved_world :: "nat world" where
  "moved_world = child_world\<lparr>cwd := Some ''/var/run''\<rparr>"

text \<open>The launcher on a system that cannot start the child.\<close>

definition parent_fails_world :: "nat world" where
  "parent_fails_world = parent_world\<lparr>start_result := Some ''exec format error''\<rparr>"

text \<open>The background process on a system that cannot start the replacement child.\<close>

definition spawn_fails_world :: "nat world" where
  "spawn_fails_world = child_world\<lparr>start_result := Some ''exec format error''\<rparr>"

section \<open>Notions of the specification\<close>

text \<open>
  The number a string of decimal digits stands for, and the integer a decimal string with
  an optional minus sign stands for: what "the decimal string of \<open>p\<close>" refers to.
\<close>

definition decimal_value :: "string \<Rightarrow> nat" where
  "decimal_value s = foldl (\<lambda>a c. 10 * a + (of_char c - 48)) 0 s"

definition decimal :: "string \<Rightarrow> int" where
  "decimal s =
     (if s \<noteq> [] \<and> hd s = CHR ''-'' then - int (decimal_value (tl s)) else int (decimal_value s))"

text \<open>
  The child invocation the specification describes: the executable and the arguments of
  the current invocation, the current environment with the tag set to \<open>true\<close> at its end,
  and the three configured streams.
\<close>

definition child_cmd :: "'w Process \<Rightarrow> 'w world \<Rightarrow> Cmd" where
  "child_cmd process w =
     \<lparr>Path = hd (args w), Args = args w,
      Env = os_Environ w @ [DaemonTag process @ ''=true''],
      Stdin = Pipeline process 0, Stdout = Pipeline process 1, Stderr = Pipeline process 2\<rparr>"

text \<open>
  The events of a hand-over. \<open>report\<close> is the write of an error text to the output
  stream, if there is an error. \<open>spawn_events\<close> and \<open>spawn_error\<close> are what the launcher
  path does and returns: the error of the start, or nil from the release after it.
  \<open>main_events\<close> and \<open>go_events\<close> are what the handler's own goroutine and the
  goroutine of \<open>Restart\<close> still have to do from a given point, and \<open>final_wstate\<close> is
  the state of the workload once \<open>Restart\<close> has run.
\<close>

definition report :: "'w Process \<Rightarrow> error option \<Rightarrow> event list" where
  "report process err =
     (case err of None \<Rightarrow> [] | Some e \<Rightarrow> [WriteString (Pipeline process 1) e])"

definition spawn_error :: "'w world \<Rightarrow> error option" where
  "spawn_error w = (case start_result w of Some err \<Rightarrow> Some err | None \<Rightarrow> None)"

definition spawn_events :: "'w Process \<Rightarrow> 'w world \<Rightarrow> event list" where
  "spawn_events process w =
     CmdStart (child_cmd process w) #
       (case start_result w of Some err \<Rightarrow> [] | None \<Rightarrow> [ProcessRelease])"

fun main_events :: "'w Process \<Rightarrow> main_pc \<Rightarrow> 'w world \<Rightarrow> event list" where
  "main_events process M_Unsetenv w =
     OsUnsetenv (DaemonTag process) #
       spawn_events process (os_Unsetenv (DaemonTag process) w) @ report process (spawn_error w)"
| "main_events process M_Run w = spawn_events process w @ report process (spawn_error w)"
| "main_events process (M_Report err) w = report process err"
| "main_events process M_Recv w = []"

fun go_events :: "'w Process \<Rightarrow> go_pc \<Rightarrow> 'w world \<Rightarrow> event list" where
  "go_events process G_Restart w =
     WorkerRestart # report process (fst (Restart (worker process) (wstate w)))"
| "go_events process (G_Report err) w = report process err"
| "go_events process G_Send w = []"

fun final_wstate :: "'w Process \<Rightarrow> go_pc \<Rightarrow> 'w world \<Rightarrow> 'w" where
  "final_wstate process G_Restart w = snd (Restart (worker process) (wstate w))"
| "final_wstate process (G_Report err) w = wstate w"
| "final_wstate process G_Send w = wstate w"

section \<open>Frame properties of the library calls\<close>

lemma emit_simps [simp]:
  "trace (emit e w) = trace w @ [e]"
  "env (emit e w) = env w" "args (emit e w) = args w" "cwd (emit e w) = cwd w"
  "getpid (emit e w) = getpid w" "files (emit e w) = files w" "readonly (emit e w) = readonly w"
  "open_files (emit e w) = open_files w" "next_fd (emit e w) = next_fd w"
  "start_result (emit e w) = start_result w"
  "wstate (emit e w) = wstate w" "sched (emit e w) = sched w"
  by (simp_all add: emit_def)

lemma SaveFilename_cwd:
  "cwd w = cwd w' \<Longrightarrow> ServicesName pid = ServicesName pid' \<Longrightarrow> SavePath pid = SavePath pid'
     \<Longrightarrow> SaveFilename pid w = SaveFilename pid' w'"
  by (auto simp: SaveFilename_def Abs_def split: option.splits)

lemma File_Close_frame [simp]:
  "cwd (File_Close f w) = cwd w" "files (File_Close f w) = files w"
  "readonly (File_Close f w) = readonly w" "wstate (File_Close f w) = wstate w"
  "trace (File_Close f w) = trace w @ [FileClose f]"
  "env (File_Close f w) = env w" "args (File_Close f w) = args w"
  "start_result (File_Close f w) = start_result w"
  "sched (File_Close f w) = sched w"
  "open_files (File_Close f w) = (case f of None \<Rightarrow> open_files w | Some fd \<Rightarrow> open_files w - {fd})"
  by (simp_all add: File_Close_def split: option.splits)

lemma os_Remove_frame [simp]:
  "cwd (snd (os_Remove path w)) = cwd w"
  "readonly (snd (os_Remove path w)) = readonly w" "wstate (snd (os_Remove path w)) = wstate w"
  "trace (snd (os_Remove path w)) = trace w @ [OsRemove path]"
  "env (snd (os_Remove path w)) = env w" "args (snd (os_Remove path w)) = args w"
  "start_result (snd (os_Remove path w)) = start_result w"
  "sched (snd (os_Remove path w)) = sched w"
  "open_files (snd (os_Remove path w)) = open_files w"
  by (simp_all add: os_Remove_def)

lemma os_Remove_files:
  "files (snd (os_Remove path w)) = (if path \<in> readonly w then files w else (files w)(path := None))"
  by (auto simp: os_Remove_def)

lemma Remove_resolved:
  assumes "SaveFilename pid w = Ret path"
  shows "Remove pid w = (Ret (), snd (os_Remove path (File_Close (File pid) w)))"
proof -
  have "SaveFilename pid (File_Close (File pid) w) = Ret path"
    using assms SaveFilename_cwd [of "File_Close (File pid) w" w pid pid] by simp
  then show ?thesis by (simp add: Remove_def)
qed

lemma Remove_unresolved:
  assumes "SaveFilename pid w = Halt h"
  shows "Remove pid w = (Halt h, File_Close (File pid) w)"
proof -
  have "SaveFilename pid (File_Close (File pid) w) = Halt h"
    using assms SaveFilename_cwd [of "File_Close (File pid) w" w pid pid] by simp
  then show ?thesis by (simp add: Remove_def)
qed

lemmas http_defs =
  http_process_def http_worker_def child_world_def orphan_world_def locked_world_def
  parent_world_def moved_world_def parent_fails_world_def spawn_fails_world_def
  NewProcess_def registerDefaultInterruptHandle_def
  registerDefaultStopHandle_def registerDefaultRestartHandle_def On_def EnvName_def

lemmas path_defs = SaveFilename_def Abs_def IsAbs_def Join_def Clean_def

lemma http_pid_path:
  "SaveFilename (PidRec http_process) child_world = Ret ''/srv/app/http.pid''"
  by (simp add: http_defs path_defs)

section \<open>Removing the PID record\<close>

text \<open>
  C9, as the code has it. \<open>Remove\<close> returns nothing, so it cannot report an error. When
  the path of the PID file can be worked out and the operating system does not refuse
  the deletion, \<open>Remove\<close> comes back, no file is at the path afterwards, and a second
  \<open>Remove\<close> comes back too and leaves the files and the open descriptors as the first
  one left them. Whether \<open>Save\<close> was called before does not matter.
\<close>

theorem Remove_idempotent:
  assumes "SaveFilename pid w = Ret path" and "path \<notin> readonly w"
  shows "fst (Remove pid w) = Ret () \<and>
         files (snd (Remove pid w)) path = None \<and>
         fst (Remove pid (snd (Remove pid w))) = Ret () \<and>
         files (snd (Remove pid (snd (Remove pid w)))) = files (snd (Remove pid w)) \<and>
         open_files (snd (Remove pid (snd (Remove pid w)))) = open_files (snd (Remove pid w))"
proof -
  let ?w1 = "snd (Remove pid w)"
  have r1: "Remove pid w = (Ret (), snd (os_Remove path (File_Close (File pid) w)))"
    using assms(1) by (rule Remove_resolved)
  have "SaveFilename pid ?w1 = Ret path"
    using assms(1) SaveFilename_cwd [of ?w1 w pid pid] by (simp add: r1)
  then have r2: "Remove pid ?w1 = (Ret (), snd (os_Remove path (File_Close (File pid) ?w1)))"
    by (rule Remove_resolved)
  show ?thesis
    using assms(2)
    by (auto simp: r2 os_Remove_files, auto simp: r1 os_Remove_files split: option.splits)
qed

theorem Remove_idempotent_witness:
  "SaveFilename (PidRec http_process) child_world = Ret ''/srv/app/http.pid'' \<and>
   ''/srv/app/http.pid'' \<notin> readonly child_world \<and>
   fst (Remove (PidRec http_process) child_world) = Ret () \<and>
   files (snd (Remove (PidRec http_process) child_world)) ''/srv/app/http.pid'' = None \<and>
   fst (Remove (PidRec http_process) (snd (Remove (PidRec http_process) child_world))) = Ret ()"
proof -
  have h1: "SaveFilename (PidRec http_process) child_world = Ret ''/srv/app/http.pid''"
    by (rule http_pid_path)
  have h2: "''/srv/app/http.pid'' \<notin> readonly child_world"
    by (simp add: child_world_def)
  show ?thesis
    using h1 h2 Remove_idempotent [OF h1 h2] by simp
qed

text \<open>
  C9 as stated fails in two ways. With a relative PID directory and a working directory
  that cannot be determined, \<open>Remove\<close> panics. With a PID file that the operating system
  does not let the process delete, the file is still there after \<open>Remove\<close>.
\<close>

theorem Remove_total_counterexample:
  "fst (Remove (PidRec http_process) orphan_world) =
     Halt (Panicked ''getwd: no such file or directory'') \<and>
   fst (Remove (PidRec http_process) locked_world) = Ret () \<and>
   files (snd (Remove (PidRec http_process) locked_world)) ''/srv/app/http.pid'' = Some ''977''"
  by (simp add: Remove_def File_Close_def os_Remove_def emit_def http_defs path_defs)

section \<open>The PID file\<close>

subsection \<open>Itoa writes the decimal representation\<close>

lemma digit_char_cases:
  assumes "d < 10"
  shows "digit_char d \<in> set ''0123456789''" and "of_char (digit_char d) = (48 + d :: nat)"
proof -
  from assms have "d = 0 \<or> d = 1 \<or> d = 2 \<or> d = 3 \<or> d = 4 \<or> d = 5 \<or> d = 6 \<or> d = 7 \<or> d = 8 \<or> d = 9"
    by arith
  then show "digit_char d \<in> set ''0123456789''" and "of_char (digit_char d) = (48 + d :: nat)"
    by (auto simp: digit_char_def)
qed

lemma format_nat_digits: "set (format_nat n) \<subseteq> set ''0123456789''"
proof (induction n rule: format_nat.induct)
  case (1 n)
  show ?case
  proof (cases "n < 10")
    case True
    then show ?thesis using digit_char_cases(1) [of n] by (subst format_nat.simps) simp
  next
    case False
    have "digit_char (n mod 10) \<in> set ''0123456789''"
      by (rule digit_char_cases(1)) simp
    with False 1 show ?thesis by (subst format_nat.simps) simp
  qed
qed

lemma decimal_value_snoc:
  "decimal_value (s @ [c]) = 10 * decimal_value s + (of_char c - 48)"
  by (simp add: decimal_value_def)

lemma format_nat_value: "decimal_value (format_nat n) = n"
proof (induction n rule: format_nat.induct)
  case (1 n)
  show ?case
  proof (cases "n < 10")
    case True
    have "format_nat n = [digit_char n]" using True by (subst format_nat.simps) simp
    then show ?thesis
      using digit_char_cases(2) [OF True] by (simp add: decimal_value_def)
  next
    case False
    have f: "format_nat n = format_nat (n div 10) @ [digit_char (n mod 10)]"
      using False by (subst format_nat.simps) simp
    have d: "of_char (digit_char (n mod 10)) = (48 + n mod 10 :: nat)"
      by (rule digit_char_cases(2)) simp
    have "decimal_value (format_nat (n div 10)) = n div 10" using False 1 by simp
    then show ?thesis
      by (simp only: f decimal_value_snoc d) simp
  qed
qed


lemma format_nat_nonempty: "format_nat n \<noteq> []"
  by (subst format_nat.simps) simp


lemma format_nat_hd: "hd (format_nat n) \<noteq> CHR ''-''"
proof -
  have "hd (format_nat n) \<in> set (format_nat n)"
    using format_nat_nonempty by simp
  then have "hd (format_nat n) \<in> set ''0123456789''"
    using format_nat_digits by blast
  then show ?thesis by auto
qed

lemma minus_not_digit: "CHR ''-'' \<notin> set ''0123456789''"
  by simp

lemma Itoa_digits: "set (Itoa i) \<subseteq> set ''-0123456789''"
proof -
  have "set (format_nat n) \<subseteq> set ''-0123456789''" for n
    using format_nat_digits [of n] by (rule subset_trans) (simp add: subset_insertI2)
  then show ?thesis by (simp add: Itoa_def)
qed


lemma Itoa_decimal: "decimal (Itoa i) = i"
proof (cases "i < 0")
  case True
  then have "Itoa i = CHR ''-'' # format_nat (nat (- i))" by (simp add: Itoa_def)
  then have "decimal (Itoa i) = - int (decimal_value (format_nat (nat (- i))))"
    by (simp add: decimal_def)
  then show ?thesis using True by (simp add: format_nat_value)
next
  case False
  then have "Itoa i = format_nat (nat i)" by (simp add: Itoa_def)
  then have "decimal (Itoa i) = int (decimal_value (format_nat (nat i)))"
    by (simp add: decimal_def format_nat_hd)
  then show ?thesis using False by (simp add: format_nat_value)
qed

subsection \<open>Save\<close>

lemma Save_success:
  assumes "Save pid w = (Ret None, w1)" and "SaveFilename pid w = Ret path"
  shows "path \<notin> readonly w"
    and "w1 = emit (WriteFile path (Itoa (Pid pid)))
              (w\<lparr>files := (files w)(path \<mapsto> Itoa (Pid pid)),
                 open_files := insert (next_fd w) (open_files w),
                 next_fd := Suc (next_fd w)\<rparr>)"
  using assms by (auto simp: Save_def Save_body_def write_file_def split: if_splits)

lemma Save_failure:
  assumes "Save pid w = (Ret (Some err), w1)"
  shows "w1 = w"
  using assms
  by (auto simp: Save_def Save_body_def write_file_def split: if_splits res.splits)

text \<open>
  C7. After a \<open>Save\<close> that succeeded, the file at the derived path holds exactly
  \<open>Itoa\<close> of the numeric identifier: a string that reads back as that number in decimal
  and consists of digits and at most a leading minus sign, so no newline and nothing else
  follows. For identifier 4242 the content is \<open>4242\<close>.
\<close>

theorem Save_writes_decimal:
  assumes "Save pid w = (Ret None, w1)" and "SaveFilename pid w = Ret path"
  shows "files w1 path = Some (Itoa (Pid pid)) \<and>
         decimal (Itoa (Pid pid)) = Pid pid \<and>
         set (Itoa (Pid pid)) \<subseteq> set ''-0123456789''"
  using Save_success(2) [OF assms] Itoa_decimal Itoa_digits by simp

lemma http_Save:
  "fst (Save (PidRec http_process) child_world) = Ret None"
  by (simp add: Save_def Save_body_def write_file_def http_defs path_defs)

theorem Save_writes_decimal_witness:
  "Save (PidRec http_process) child_world =
     (Ret None, snd (Save (PidRec http_process) child_world)) \<and>
   SaveFilename (PidRec http_process) child_world = Ret ''/srv/app/http.pid'' \<and>
   Pid (PidRec http_process) = 4242 \<and>
   files (snd (Save (PidRec http_process) child_world)) ''/srv/app/http.pid'' = Some ''4242''"
proof -
  have h1: "Save (PidRec http_process) child_world =
     (Ret None, snd (Save (PidRec http_process) child_world))"
    using http_Save by (simp add: prod_eq_iff)
  have h2: "SaveFilename (PidRec http_process) child_world = Ret ''/srv/app/http.pid''"
    by (rule http_pid_path)
  have p: "Pid (PidRec http_process) = 4242" by (simp add: http_defs)
  have i: "Itoa 4242 = ''4242''" by (simp add: Itoa_def digit_char_def format_nat.simps)
  show ?thesis
    using h1 h2 p i Save_writes_decimal [OF h1 h2] by simp
qed

text \<open>
  C8 does not hold of the code. \<open>Save\<close> has a value receiver: the assignment to
  \<open>pid.File\<close> changes the copy the method works on, and the record of the caller keeps
  the nil file it had. For the example service: the copy inside \<open>Save\<close> holds
  descriptor 3, the record itself still holds none, and a \<open>Remove\<close> on the record closes
  the nil file, deletes the PID file and leaves descriptor 3 open.
\<close>

theorem Save_handle_not_retained:
  "fst (Save_body (PidRec http_process) child_world) =
     Ret ((PidRec http_process)\<lparr>File := Some 3\<rparr>, None) \<and>
   fst (Save (PidRec http_process) child_world) = Ret None \<and>
   File (PidRec http_process) = None \<and>
   open_files (snd (Save (PidRec http_process) child_world)) = {0, 1, 2, 3} \<and>
   fst (Remove (PidRec http_process) (snd (Save (PidRec http_process) child_world))) = Ret () \<and>
   open_files (snd (Remove (PidRec http_process) (snd (Save (PidRec http_process) child_world))))
     = {0, 1, 2, 3} \<and>
   trace (snd (Remove (PidRec http_process) (snd (Save (PidRec http_process) child_world)))) =
     [WriteFile ''/srv/app/http.pid'' ''4242'', FileClose None, OsRemove ''/srv/app/http.pid'']"
  by (simp add: Save_def Save_body_def write_file_def Remove_def File_Close_def os_Remove_def
      emit_def Itoa_def digit_char_def format_nat.simps http_defs path_defs insert_commute)

subsection \<open>SaveFilename\<close>

text \<open>
  C6, as the code has it. \<open>SaveFilename\<close> is a function of the service name, the save
  directory and the working directory of the process; nothing else of the record or of
  the process matters. For an absolute directory it is the cleaned directory, a slash, the
  name and \<open>.pid\<close>; for a relative one the directory is first joined to the working
  directory, and the call panics when the working directory cannot be determined.
\<close>

theorem SaveFilename_determined:
  assumes "ServicesName pid = ServicesName pid'" and "SavePath pid = SavePath pid'"
    and "cwd w = cwd w'"
  shows "SaveFilename pid w = SaveFilename pid' w' \<and>
         SaveFilename pid w =
           (if IsAbs (SavePath pid)
            then Ret (Clean (SavePath pid) @ ''/'' @ ServicesName pid @ ''.pid'')
            else case cwd w of
                   None \<Rightarrow> Halt (Panicked ''getwd: no such file or directory'')
                 | Some wd \<Rightarrow> Ret (Join wd (SavePath pid) @ ''/'' @ ServicesName pid @ ''.pid''))"
proof
  show "SaveFilename pid w = SaveFilename pid' w'"
    using assms(3) assms(1) assms(2) by (rule SaveFilename_cwd)
  show "SaveFilename pid w =
           (if IsAbs (SavePath pid)
            then Ret (Clean (SavePath pid) @ ''/'' @ ServicesName pid @ ''.pid'')
            else case cwd w of
                   None \<Rightarrow> Halt (Panicked ''getwd: no such file or directory'')
                 | Some wd \<Rightarrow> Ret (Join wd (SavePath pid) @ ''/'' @ ServicesName pid @ ''.pid''))"
    by (simp add: SaveFilename_def Abs_def split: option.splits)
qed

theorem SaveFilename_determined_witness:
  "ServicesName (PidRec http_process) = ServicesName \<lparr>ServicesName = ''http'', SavePath = ''./'', Pid = 1, File = Some 9\<rparr> \<and>
   SavePath (PidRec http_process) = SavePath \<lparr>ServicesName = ''http'', SavePath = ''./'', Pid = 1, File = Some 9\<rparr> \<and>
   cwd child_world = cwd parent_world \<and>
   SaveFilename (PidRec http_process) child_world = Ret ''/srv/app/http.pid'' \<and>
   SaveFilename \<lparr>ServicesName = ''http'', SavePath = ''./'', Pid = 1, File = Some 9\<rparr> parent_world =
     Ret ''/srv/app/http.pid''"
proof -
  let ?pid' = "\<lparr>ServicesName = ''http'', SavePath = ''./'', Pid = 1, File = Some 9\<rparr>"
  have h1: "ServicesName (PidRec http_process) = ServicesName ?pid'" by (simp add: http_defs)
  have h2: "SavePath (PidRec http_process) = SavePath ?pid'" by (simp add: http_defs)
  have h3: "cwd child_world = cwd parent_world" by (simp add: http_defs)
  show ?thesis
    using h1 h2 h3 SaveFilename_determined [OF h1 h2 h3] http_pid_path by simp
qed

text \<open>
  C6 as stated fails: with the same name \<open>http\<close> and the same directory \<open>./\<close> the
  result differs between two working directories, and there is none when the working
  directory cannot be determined.
\<close>

theorem SaveFilename_pure_counterexample:
  "SaveFilename (PidRec http_process) child_world = Ret ''/srv/app/http.pid'' \<and>
   SaveFilename (PidRec http_process) moved_world = Ret ''/var/run/http.pid'' \<and>
   SaveFilename (PidRec http_process) orphan_world =
     Halt (Panicked ''getwd: no such file or directory'')"
  by (simp add: moved_world_def http_defs path_defs)

section \<open>Run\<close>

lemma Save_failed_state:
  assumes "fst (Save pid w) \<noteq> Ret None"
  shows "snd (Save pid w) = w"
  using assms
  by (auto simp: Save_def Save_body_def write_file_def split: res.splits if_splits)

lemma Save_failed_result:
  assumes "fst (Save pid w) \<noteq> Ret None"
  shows "case SaveFilename pid w of
           Halt h \<Rightarrow> fst (Save pid w) = Halt h
         | Ret path \<Rightarrow> \<exists>err. fst (Save pid w) = Ret (Some err)"
  using assms
  by (auto simp: Save_def Save_body_def write_file_def split: res.splits if_splits)

text \<open>
  C4, as the code has it. On the child path (the tag variable is \<open>true\<close>), when \<open>Save\<close>
  does not succeed, \<open>Run\<close> ends as \<open>Save\<close> ended and does nothing more: the state is the
  one \<open>Run\<close> was called in, so the workload is untouched and no \<open>Start\<close> has been added
  to the events. When the path of the PID file can be worked out, \<open>Save\<close> has returned
  an error and \<open>Run\<close> returns that error; when it cannot, \<open>Save\<close> has panicked and so
  does \<open>Run\<close>.
\<close>

theorem Run_child_Save_fails:
  assumes "IsChild process w" and "fst (Save (PidRec process) w) \<noteq> Ret None"
  shows "Run process sigs w = Save (PidRec process) w \<and>
         snd (Run process sigs w) = w \<and>
         wstate (snd (Run process sigs w)) = wstate w \<and>
         count_list (trace (snd (Run process sigs w))) WorkerStart =
           count_list (trace w) WorkerStart \<and>
         (case SaveFilename (PidRec process) w of
            Halt h \<Rightarrow> fst (Run process sigs w) = Halt h
          | Ret path \<Rightarrow> \<exists>err. fst (Run process sigs w) = Ret (Some err))"
proof -
  obtain r w1 where sv: "Save (PidRec process) w = (r, w1)"
    by (cases "Save (PidRec process) w")
  have r: "r \<noteq> Ret None" using assms(2) sv by simp
  have run: "Run process sigs w = (r, w1)"
    using assms(1) r sv by (simp add: Run_def Run_with_def split: res.splits option.splits)
  have st: "w1 = w" using Save_failed_state [OF assms(2)] sv by simp
  show ?thesis
    using Save_failed_result [OF assms(2)] by (simp add: run sv st split: res.splits)
qed

theorem Run_child_Save_fails_witness:
  "IsChild http_process locked_world \<and>
   fst (Save (PidRec http_process) locked_world) \<noteq> Ret None \<and>
   Run http_process [SIGUSR1] locked_world = (Ret (Some ''permission denied''), locked_world) \<and>
   count_list (trace (snd (Run http_process [SIGUSR1] locked_world))) WorkerStart = 0"
proof -
  have h1: "IsChild http_process locked_world"
    by (simp add: IsChild_def os_Getenv_def http_defs)
  have sv: "Save (PidRec http_process) locked_world =
      (Ret (Some ''permission denied''), locked_world)"
    by (simp add: Save_def Save_body_def write_file_def http_defs path_defs)
  have h2: "fst (Save (PidRec http_process) locked_world) \<noteq> Ret None"
    by (simp add: sv)
  have t: "count_list (trace locked_world) WorkerStart = 0" by (simp add: http_defs)
  show ?thesis
    using h1 h2 sv t Run_child_Save_fails [OF h1 h2, of "[SIGUSR1]"] by simp
qed

text \<open>
  C4 as stated fails: on the child path with the relative PID directory of the example
  and a working directory that cannot be determined, persisting the PID record fails by
  a panic in \<open>SaveFilename\<close>; \<open>Run\<close> panics too and returns no error.
\<close>

theorem Run_child_Save_panics_counterexample:
  "IsChild http_process orphan_world \<and>
   fst (Save (PidRec http_process) orphan_world) =
     Halt (Panicked ''getwd: no such file or directory'') \<and>
   Run http_process [SIGUSR1] orphan_world =
     (Halt (Panicked ''getwd: no such file or directory''), orphan_world)"
  by (simp add: Run_def Run_with_def Save_def Save_body_def IsChild_def os_Getenv_def
      http_defs path_defs)

lemma Run_parent_result:
  assumes "args w \<noteq> []"
  shows "fst (Run_parent process w) = Ret (start_result w)"
    and "trace (snd (Run_parent process w)) =
           trace w @ CmdStart (child_cmd process w) #
             (case start_result w of Some err \<Rightarrow> [] | None \<Rightarrow> [ProcessRelease])"
  using assms
  by (auto simp: Run_parent_def Command_def Cmd_Start_def Process_Release_def child_cmd_def
      Let_def split: list.splits option.splits)

text \<open>
  C5. On the parent path (the argument vector of a process of this package is never
  empty) \<open>Run\<close> returns: it neither panics nor exits nor blocks. What it returns is what
  \<open>cmd.Start\<close> returned, so it returns an error exactly when starting the child fails.
  It makes exactly one start, of the invocation with the first argument as executable, the
  whole argument vector, the current environment followed by the tag set to \<open>true\<close>, and
  the three configured streams; a child that started is released, one that did not is not.
\<close>

theorem Run_parent_spawns:
  assumes "\<not> IsChild process w" and "args w \<noteq> []"
  shows "fst (Run process sigs w) = Ret (start_result w) \<and>
         (fst (Run process sigs w) = Ret None) = (start_result w = None) \<and>
         trace (snd (Run process sigs w)) =
           trace w @ CmdStart (child_cmd process w) #
             (case start_result w of Some err \<Rightarrow> [] | None \<Rightarrow> [ProcessRelease]) \<and>
         Path (child_cmd process w) = hd (args w) \<and>
         Args (child_cmd process w) = args w \<and>
         Env (child_cmd process w) = os_Environ w @ [DaemonTag process @ ''=true''] \<and>
         Stdin (child_cmd process w) = Pipeline process 0 \<and>
         Stdout (child_cmd process w) = Pipeline process 1 \<and>
         Stderr (child_cmd process w) = Pipeline process 2"
  using assms Run_parent_result [OF assms(2), of process]
  by (simp add: Run_def Run_with_def child_cmd_def)

theorem Run_parent_spawns_witness:
  "\<not> IsChild http_process parent_world \<and> args parent_world \<noteq> [] \<and>
   Run http_process [] parent_world =
     (Ret None,
      parent_world\<lparr>trace :=
        [CmdStart \<lparr>Path = ''/usr/bin/httpd'', Args = [''/usr/bin/httpd'', ''start''],
                   Env = [''HOME=/root'', ''DAEMON=true''],
                   Stdin = Some 0, Stdout = Some 1, Stderr = Some 2\<rparr>,
         ProcessRelease]\<rparr>) \<and>
   \<not> IsChild http_process parent_fails_world \<and> args parent_fails_world \<noteq> [] \<and>
   Run http_process [] parent_fails_world =
     (Ret (Some ''exec format error''),
      parent_fails_world\<lparr>trace :=
        [CmdStart \<lparr>Path = ''/usr/bin/httpd'', Args = [''/usr/bin/httpd'', ''start''],
                   Env = [''HOME=/root'', ''DAEMON=true''],
                   Stdin = Some 0, Stdout = Some 1, Stderr = Some 2\<rparr>]\<rparr>)"
proof -
  have h1: "\<not> IsChild http_process parent_world"
    by (simp add: IsChild_def os_Getenv_def http_defs)
  have h2: "args parent_world \<noteq> []" by (simp add: http_defs)
  have r: "Run http_process [] parent_world =
     (Ret None,
      parent_world\<lparr>trace :=
        [CmdStart \<lparr>Path = ''/usr/bin/httpd'', Args = [''/usr/bin/httpd'', ''start''],
                   Env = [''HOME=/root'', ''DAEMON=true''],
                   Stdin = Some 0, Stdout = Some 1, Stderr = Some 2\<rparr>,
         ProcessRelease]\<rparr>)"
    by (simp add: Run_def Run_with_def Run_parent_def Command_def Cmd_Start_def
        Process_Release_def IsChild_def os_Getenv_def os_Environ_def emit_def http_defs)
  have k1: "\<not> IsChild http_process parent_fails_world"
    by (simp add: IsChild_def os_Getenv_def http_defs)
  have k2: "args parent_fails_world \<noteq> []" by (simp add: http_defs)
  have q: "Run http_process [] parent_fails_world =
     (Ret (Some ''exec format error''),
      parent_fails_world\<lparr>trace :=
        [CmdStart \<lparr>Path = ''/usr/bin/httpd'', Args = [''/usr/bin/httpd'', ''start''],
                   Env = [''HOME=/root'', ''DAEMON=true''],
                   Stdin = Some 0, Stdout = Some 1, Stderr = Some 2\<rparr>]\<rparr>)"
    by (simp add: Run_def Run_with_def Run_parent_def Command_def Cmd_Start_def
        Process_Release_def IsChild_def os_Getenv_def os_Environ_def emit_def http_defs)
  show ?thesis
    using h1 h2 r k1 k2 q Run_parent_spawns [OF h1 h2, of "[]"]
      Run_parent_spawns [OF k1 k2, of "[]"] by simp
qed

section \<open>The restart handler\<close>

subsection \<open>Frame properties\<close>

lemma tick_simps [simp]:
  "trace (tick w) = trace w" "env (tick w) = env w" "args (tick w) = args w"
  "cwd (tick w) = cwd w" "files (tick w) = files w" "readonly (tick w) = readonly w"
  "open_files (tick w) = open_files w" "start_result (tick w) = start_result w"
  "wstate (tick w) = wstate w"
  by (simp_all add: tick_def)

lemma os_Unsetenv_simps [simp]:
  "trace (os_Unsetenv k w) = trace w @ [OsUnsetenv k]"
  "env (os_Unsetenv k w) = filter (\<lambda>kv. fst kv \<noteq> k) (env w)"
  "args (os_Unsetenv k w) = args w" "cwd (os_Unsetenv k w) = cwd w"
  "files (os_Unsetenv k w) = files w" "readonly (os_Unsetenv k w) = readonly w"
  "open_files (os_Unsetenv k w) = open_files w"
  "start_result (os_Unsetenv k w) = start_result w"
  "wstate (os_Unsetenv k w) = wstate w"
  by (simp_all add: os_Unsetenv_def)

lemma File_WriteString_simps [simp]:
  "trace (File_WriteString f s w) = trace w @ [WriteString f s]"
  "env (File_WriteString f s w) = env w" "args (File_WriteString f s w) = args w"
  "cwd (File_WriteString f s w) = cwd w" "files (File_WriteString f s w) = files w"
  "readonly (File_WriteString f s w) = readonly w"
  "open_files (File_WriteString f s w) = open_files w"
  "start_result (File_WriteString f s w) = start_result w"
  "wstate (File_WriteString f s w) = wstate w"
  by (simp_all add: File_WriteString_def)

lemma IsChild_env: "env w = env w' \<Longrightarrow> IsChild process w = IsChild process w'"
  by (simp add: IsChild_def os_Getenv_def)

lemma map_of_filter_key: "map_of (filter (\<lambda>kv. fst kv \<noteq> k) xs) k = None"
  by (induction xs) auto

lemma not_IsChild_Unsetenv: "\<not> IsChild process (os_Unsetenv (DaemonTag process) w)"
  by (simp add: IsChild_def os_Getenv_def map_of_filter_key)

lemma spawn_inputs:
  assumes "args w = args w'" "env w = env w'" "start_result w = start_result w'"
  shows "spawn_events process w = spawn_events process w'" "spawn_error w = spawn_error w'"
  using assms
  by (auto simp: spawn_events_def spawn_error_def child_cmd_def os_Environ_def split: option.splits)

lemma main_events_inputs:
  assumes "args w = args w'" "env w = env w'" "start_result w = start_result w'"
  shows "main_events process mpc w = main_events process mpc w'"
proof (cases mpc)
  case M_Unsetenv
  have "spawn_events process (os_Unsetenv (DaemonTag process) w) =
        spawn_events process (os_Unsetenv (DaemonTag process) w')"
    by (rule spawn_inputs) (simp_all add: assms)
  then show ?thesis using M_Unsetenv spawn_inputs(2) [OF assms] by simp
next
  case M_Run
  then show ?thesis using spawn_inputs [OF assms] by simp
qed simp_all

lemma go_events_inputs:
  "wstate w = wstate w' \<Longrightarrow> go_events process gpc w = go_events process gpc w'"
  by (cases gpc) simp_all

lemma final_wstate_inputs:
  "wstate w = wstate w' \<Longrightarrow> final_wstate process gpc w = final_wstate process gpc w'"
  by (cases gpc) simp_all

subsection \<open>One step of either goroutine\<close>

lemma shuffles_append_left:
  "zs \<in> shuffles xs ys \<Longrightarrow> es @ zs \<in> shuffles (es @ xs) ys"
  by (induction es) (simp_all add: Cons_in_shuffles_leftI)

lemma shuffles_append_right:
  "zs \<in> shuffles xs ys \<Longrightarrow> es @ zs \<in> shuffles xs (es @ ys)"
  by (induction es) (simp_all add: Cons_in_shuffles_rightI)

lemma Run_with_parent: "\<not> IsChild process w \<Longrightarrow> Run_with listen process w = Run_parent process w"
  by (simp add: Run_with_def)

lemma Run_parent_frame:
  assumes "args w \<noteq> []"
  shows "fst (Run_parent process w) = Ret (spawn_error w)"
    and "trace (snd (Run_parent process w)) = trace w @ spawn_events process w"
    and "env (snd (Run_parent process w)) = env w"
    and "args (snd (Run_parent process w)) = args w"
    and "start_result (snd (Run_parent process w)) = start_result w"
    and "wstate (snd (Run_parent process w)) = wstate w"
    and "files (snd (Run_parent process w)) = files w"
  using assms
  by (auto simp: Run_parent_def Command_def Cmd_Start_def Process_Release_def child_cmd_def
      spawn_error_def spawn_events_def Let_def split: list.splits option.splits)

lemma main_step_ok:
  assumes "mpc \<noteq> M_Recv" and "args w \<noteq> []" and "mpc = M_Unsetenv \<or> \<not> IsChild process w"
  shows "\<exists>mpc1 w1 evs.
           main_step (Run_with listen process) process mpc w = (Ret mpc1, w1) \<and>
           trace w1 = trace w @ evs \<and>
           main_events process mpc w = evs @ main_events process mpc1 w1 \<and>
           args w1 = args w \<and> \<not> IsChild process w1 \<and> mpc1 \<noteq> M_Unsetenv \<and>
           wstate w1 = wstate w \<and> files w1 = files w"
proof (cases mpc)
  case M_Unsetenv
  let ?w1 = "os_Unsetenv (DaemonTag process) w"
  have "spawn_error ?w1 = spawn_error w" by (simp add: spawn_error_def split: option.splits)
  then have "main_events process mpc w = [OsUnsetenv (DaemonTag process)] @ main_events process M_Run ?w1"
    using M_Unsetenv by simp
  moreover have "main_step (Run_with listen process) process mpc w = (Ret M_Run, ?w1)"
    using M_Unsetenv by (simp add: main_step_def)
  ultimately show ?thesis
    using not_IsChild_Unsetenv [of process w] by (intro exI [of _ M_Run] exI [of _ ?w1] exI [of _ "[OsUnsetenv (DaemonTag process)]"]) simp
next
  case M_Run
  let ?r = "Run_parent process w"
  have nc: "\<not> IsChild process w" using assms(3) M_Run by simp
  have run: "Run_with listen process w = (Ret (spawn_error w), snd ?r)"
    using Run_with_parent [OF nc, of listen] Run_parent_frame(1) [OF assms(2), of process]
    by (simp add: prod_eq_iff)
  have step: "main_step (Run_with listen process) process mpc w = (Ret (M_Report (spawn_error w)), snd ?r)"
    using M_Run run by (simp add: main_step_def)
  have "\<not> IsChild process (snd ?r)"
    using nc IsChild_env [of "snd ?r" w process] Run_parent_frame(3) [OF assms(2), of process] by simp
  then show ?thesis
    using step M_Run Run_parent_frame [OF assms(2), of process]
    by (intro exI [of _ "M_Report (spawn_error w)"] exI [of _ "snd ?r"] exI [of _ "spawn_events process w"]) simp
next
  case (M_Report err)
  let ?w1 = "case err of None \<Rightarrow> w | Some e \<Rightarrow> File_WriteString (Pipeline process 1) e w"
  have step: "main_step (Run_with listen process) process mpc w = (Ret M_Recv, ?w1)"
    using M_Report by (simp add: main_step_def)
  have nc: "\<not> IsChild process ?w1"
    using assms(3) M_Report IsChild_env [of ?w1 w process] by (simp split: option.splits)
  show ?thesis
    using step M_Report nc
    by (intro exI [of _ M_Recv] exI [of _ ?w1] exI [of _ "report process err"])
       (simp add: report_def split: option.splits)
next
  case M_Recv
  then show ?thesis using assms(1) by simp
qed

lemma go_step_ok:
  assumes "gpc \<noteq> G_Send"
  shows "\<exists>gpc1 w1 evs.
           go_step process gpc w = (gpc1, w1) \<and>
           trace w1 = trace w @ evs \<and>
           go_events process gpc w = evs @ go_events process gpc1 w1 \<and>
           args w1 = args w \<and> env w1 = env w \<and> start_result w1 = start_result w \<and>
           files w1 = files w \<and>
           final_wstate process gpc1 w1 = final_wstate process gpc w"
proof (cases gpc)
  case G_Restart
  obtain err s where r: "Restart (worker process) (wstate w) = (err, s)"
    by (cases "Restart (worker process) (wstate w)")
  let ?w1 = "emit WorkerRestart (w\<lparr>wstate := s\<rparr>)"
  have "go_step process gpc w = (G_Report err, ?w1)"
    using G_Restart r by (simp add: go_step_def call_Restart_def)
  then show ?thesis
    using G_Restart r
    by (intro exI [of _ "G_Report err"] exI [of _ ?w1] exI [of _ "[WorkerRestart]"]) simp
next
  case (G_Report err)
  let ?w1 = "case err of None \<Rightarrow> w | Some e \<Rightarrow> File_WriteString (Pipeline process 1) e w"
  have "go_step process gpc w = (G_Send, ?w1)"
    using G_Report by (simp add: go_step_def)
  then show ?thesis
    using G_Report
    by (intro exI [of _ G_Send] exI [of _ ?w1] exI [of _ "report process err"])
       (simp add: report_def split: option.splits)
next
  case G_Send
  then show ?thesis using assms by simp
qed

subsection \<open>Every schedule ends in the hand-over\<close>

text \<open>
  Whatever the scheduler chooses, from any point the two goroutines reach with a
  non-empty argument vector and, once the tag is unset, a process that is no longer a
  child: the handler ends in \<open>os.Exit(0)\<close>, and what happens before is an interleaving of
  what the two goroutines had left to do.
\<close>

lemma restart_threads_runs:
  assumes "run = Run_with listen process" and "args w \<noteq> []"
    and "mpc = M_Unsetenv \<or> \<not> IsChild process w"
  shows "fst (restart_threads run process mpc gpc w) = Halt (Exited 0) \<and>
         (\<exists>mid. trace (snd (restart_threads run process mpc gpc w)) = trace w @ mid @ [OsExit 0] \<and>
                mid \<in> shuffles (main_events process mpc w) (go_events process gpc w)) \<and>
         wstate (snd (restart_threads run process mpc gpc w)) = final_wstate process gpc w \<and>
         files (snd (restart_threads run process mpc gpc w)) = files w"
  using assms
proof (induction run process mpc gpc w rule: restart_threads.induct)
  case (1 run process mpc gpc w)
  show ?case
  proof (cases "mpc = M_Recv \<and> gpc = G_Send")
    case True
    then have "restart_threads run process mpc gpc w = os_Exit 0 w"
      by (subst restart_threads.simps) simp
    then show ?thesis using True by (simp add: os_Exit_def)
  next
    case False
    show ?thesis
    proof (cases "pick_main mpc gpc w")
      case True
      have live: "mpc \<noteq> M_Recv"
        using True False by (auto simp: pick_main_def split: if_splits)
      have child: "mpc = M_Unsetenv \<or> \<not> IsChild process (tick w)"
        using "1.prems"(3) IsChild_env [of "tick w" w process] by simp
      obtain mpc1 w1 evs where
        step: "main_step (Run_with listen process) process mpc (tick w) = (Ret mpc1, w1)" and
        tr: "trace w1 = trace (tick w) @ evs" and
        ev: "main_events process mpc (tick w) = evs @ main_events process mpc1 w1" and
        fr: "args w1 = args (tick w)" "\<not> IsChild process w1" "wstate w1 = wstate (tick w)"
            "files w1 = files (tick w)"
        using main_step_ok [OF live _ child, of listen] "1.prems"(2) by auto
      have step': "(Ret mpc1, w1) = main_step run process mpc (tick w)"
        using step "1.prems"(1) by simp
      have ih: "fst (restart_threads run process mpc1 gpc w1) = Halt (Exited 0) \<and>
         (\<exists>mid. trace (snd (restart_threads run process mpc1 gpc w1)) = trace w1 @ mid @ [OsExit 0] \<and>
                mid \<in> shuffles (main_events process mpc1 w1) (go_events process gpc w1)) \<and>
         wstate (snd (restart_threads run process mpc1 gpc w1)) = final_wstate process gpc w1 \<and>
         files (snd (restart_threads run process mpc1 gpc w1)) = files w1"
        using "1.IH"(1) [OF False True step' refl "1.prems"(1)] fr "1.prems"(2) by simp
      then obtain mid where
        m: "trace (snd (restart_threads run process mpc1 gpc w1)) = trace w1 @ mid @ [OsExit 0]"
           "mid \<in> shuffles (main_events process mpc1 w1) (go_events process gpc w1)"
        by blast
      have unf: "restart_threads run process mpc gpc w = restart_threads run process mpc1 gpc w1"
        using live True by (subst restart_threads.simps) (simp add: step'[symmetric])
      have me: "main_events process mpc w = evs @ main_events process mpc1 w1"
        using ev main_events_inputs [of "tick w" w process mpc] by simp
      have ge: "go_events process gpc w1 = go_events process gpc w"
        using fr(3) go_events_inputs [of w1 w process gpc] by simp
      have fw: "final_wstate process gpc w1 = final_wstate process gpc w"
        using fr(3) final_wstate_inputs [of w1 w process gpc] by simp
      have "evs @ mid \<in> shuffles (main_events process mpc w) (go_events process gpc w)"
        using m(2) shuffles_append_left [of mid "main_events process mpc1 w1" "go_events process gpc w1" evs]
        by (simp add: me ge)
      moreover have "trace (snd (restart_threads run process mpc gpc w)) = trace w @ (evs @ mid) @ [OsExit 0]"
        using m(1) tr by (simp add: unf)
      ultimately have "\<exists>mid. trace (snd (restart_threads run process mpc gpc w)) = trace w @ mid @ [OsExit 0] \<and>
                mid \<in> shuffles (main_events process mpc w) (go_events process gpc w)"
        by blast
      then show ?thesis using ih fw fr(4) by (simp add: unf)
    next
      case nopick: False
      have live: "gpc \<noteq> G_Send"
        using nopick by (auto simp: pick_main_def split: if_splits)
      obtain gpc1 w1 evs where
        step: "go_step process gpc (tick w) = (gpc1, w1)" and
        tr: "trace w1 = trace (tick w) @ evs" and
        ev: "go_events process gpc (tick w) = evs @ go_events process gpc1 w1" and
        fr: "args w1 = args (tick w)" "env w1 = env (tick w)"
            "start_result w1 = start_result (tick w)"
            "files w1 = files (tick w)"
            "final_wstate process gpc1 w1 = final_wstate process gpc (tick w)"
        using go_step_ok [OF live, of process "tick w"] by auto
      have step': "(gpc1, w1) = go_step process gpc (tick w)" using step by simp
      have child: "mpc = M_Unsetenv \<or> \<not> IsChild process w1"
        using "1.prems"(3) IsChild_env [of w1 w process] fr(2) by simp
      have ih: "fst (restart_threads run process mpc gpc1 w1) = Halt (Exited 0) \<and>
         (\<exists>mid. trace (snd (restart_threads run process mpc gpc1 w1)) = trace w1 @ mid @ [OsExit 0] \<and>
                mid \<in> shuffles (main_events process mpc w1) (go_events process gpc1 w1)) \<and>
         wstate (snd (restart_threads run process mpc gpc1 w1)) = final_wstate process gpc1 w1 \<and>
         files (snd (restart_threads run process mpc gpc1 w1)) = files w1"
        using "1.IH"(2) [OF False nopick step' "1.prems"(1) _ child] fr(1) "1.prems"(2) by simp
      then obtain mid where
        m: "trace (snd (restart_threads run process mpc gpc1 w1)) = trace w1 @ mid @ [OsExit 0]"
           "mid \<in> shuffles (main_events process mpc w1) (go_events process gpc1 w1)"
        by blast
      have unf: "restart_threads run process mpc gpc w = restart_threads run process mpc gpc1 w1"
        using live nopick by (subst restart_threads.simps) (simp add: step)
      have me: "main_events process mpc w1 = main_events process mpc w"
        using fr main_events_inputs [of w1 w process mpc] by simp
      have ge: "go_events process gpc w = evs @ go_events process gpc1 w1"
        using ev go_events_inputs [of "tick w" w process gpc] by simp
      have fw: "final_wstate process gpc1 w1 = final_wstate process gpc w"
        using fr(5) final_wstate_inputs [of "tick w" w process gpc] by simp
      have "evs @ mid \<in> shuffles (main_events process mpc w) (go_events process gpc w)"
        using m(2) shuffles_append_right [of mid "main_events process mpc w1" "go_events process gpc1 w1" evs]
        by (simp add: me ge)
      moreover have "trace (snd (restart_threads run process mpc gpc w)) = trace w @ (evs @ mid) @ [OsExit 0]"
        using m(1) tr by (simp add: unf)
      ultimately have "\<exists>mid. trace (snd (restart_threads run process mpc gpc w)) = trace w @ mid @ [OsExit 0] \<and>
                mid \<in> shuffles (main_events process mpc w) (go_events process gpc w)"
        by blast
      then show ?thesis using ih fw fr(4) by (simp add: unf)
    qed
  qed
qed


lemma count_list_shuffles:
  "zs \<in> shuffles xs ys \<Longrightarrow> count_list zs a = count_list xs a + count_list ys a"
  by (induction xs ys arbitrary: zs rule: shuffles.induct) auto

lemma Run_eq: "Run process sigs = Run_with (Listen process sigs) process"
  by (rule ext) (simp add: Run_def)

lemma restart_handle_resolved:
  assumes "SaveFilename (PidRec process) w = Ret path" and "args w \<noteq> []"
  shows "fst (restart_handle (Run process sigs) process w) = Halt (Exited 0)"
    and "\<exists>mid. trace (snd (restart_handle (Run process sigs) process w)) =
                  trace w @ [FileClose (File (PidRec process)), OsRemove path] @ mid @ [OsExit 0] \<and>
                mid \<in> shuffles (main_events process M_Unsetenv w) (go_events process G_Restart w)"
    and "wstate (snd (restart_handle (Run process sigs) process w)) =
           snd (Restart (worker process) (wstate w))"
    and "files (snd (restart_handle (Run process sigs) process w)) =
           (if path \<in> readonly w then files w else (files w)(path := None))"
proof -
  let ?w0 = "snd (os_Remove path (File_Close (File (PidRec process)) w))"
  let ?r = "restart_threads (Run process sigs) process M_Unsetenv G_Restart ?w0"
  have rh: "restart_handle (Run process sigs) process w = ?r"
    using Remove_resolved [OF assms(1)] by (simp add: restart_handle_def)
  have a: "args ?w0 \<noteq> []" using assms(2) by simp
  have runs: "fst ?r = Halt (Exited 0) \<and>
         (\<exists>mid. trace (snd ?r) = trace ?w0 @ mid @ [OsExit 0] \<and>
                mid \<in> shuffles (main_events process M_Unsetenv ?w0) (go_events process G_Restart ?w0)) \<and>
         wstate (snd ?r) = final_wstate process G_Restart ?w0 \<and>
         files (snd ?r) = files ?w0"
    using restart_threads_runs [where mpc = M_Unsetenv and gpc = G_Restart, OF Run_eq a] by blast
  have me: "main_events process M_Unsetenv ?w0 = main_events process M_Unsetenv w"
    by (rule main_events_inputs) simp_all
  have ge: "go_events process G_Restart ?w0 = go_events process G_Restart w"
    by (rule go_events_inputs) simp
  from runs obtain mid where
    t: "trace (snd ?r) = trace ?w0 @ mid @ [OsExit 0]" and
    sh: "mid \<in> shuffles (main_events process M_Unsetenv ?w0) (go_events process G_Restart ?w0)"
    by blast
  have sh': "mid \<in> shuffles (main_events process M_Unsetenv w) (go_events process G_Restart w)"
    using sh by (simp only: me ge)
  have t': "trace (snd ?r) =
      trace w @ [FileClose (File (PidRec process)), OsRemove path] @ mid @ [OsExit 0]"
    using t by simp
  show "fst (restart_handle (Run process sigs) process w) = Halt (Exited 0)"
    using runs by (simp only: rh)
  show "\<exists>mid. trace (snd (restart_handle (Run process sigs) process w)) =
                  trace w @ [FileClose (File (PidRec process)), OsRemove path] @ mid @ [OsExit 0] \<and>
                mid \<in> shuffles (main_events process M_Unsetenv w) (go_events process G_Restart w)"
    using t' sh' by (simp only: rh) blast
  have "wstate (snd ?r) = final_wstate process G_Restart ?w0" using runs by blast
  then show "wstate (snd (restart_handle (Run process sigs) process w)) =
           snd (Restart (worker process) (wstate w))"
    by (simp add: rh)
  have "files (snd ?r) = files ?w0" using runs by blast
  then show "files (snd (restart_handle (Run process sigs) process w)) =
           (if path \<in> readonly w then files w else (files w)(path := None))"
    by (simp add: rh os_Remove_files)
qed

text \<open>
  C1, as the code has it. When the path of the PID file can be worked out and the argument
  vector is not empty, the restart handler does the following under every schedule. It
  closes the record's file and removes the PID file first. Then come, interleaved in some
  way, the steps of its own goroutine in their order (unset the tag, start the child
  built by the launcher path of \<open>Run\<close> from the environment without the tag, release it
  if it started, report an error of \<open>Run\<close>) and the steps of the other goroutine in
  their order (\<open>Restart\<close>, report its error). \<open>Restart\<close> is called exactly once. The last
  event is \<open>os.Exit(0)\<close>, after everything else.
\<close>

theorem restart_handle_order:
  assumes "SaveFilename (PidRec process) w = Ret path" and "args w \<noteq> []"
  shows "fst (restart_handle (Run process sigs) process w) = Halt (Exited 0) \<and>
         (\<exists>mid. trace (snd (restart_handle (Run process sigs) process w)) =
                  trace w @ [FileClose (File (PidRec process)), OsRemove path] @ mid @ [OsExit 0] \<and>
                mid \<in> shuffles
                  (OsUnsetenv (DaemonTag process) #
                   spawn_events process (os_Unsetenv (DaemonTag process) w) @
                   report process (spawn_error w))
                  (WorkerRestart # report process (fst (Restart (worker process) (wstate w)))) \<and>
                count_list mid WorkerRestart = 1) \<and>
         wstate (snd (restart_handle (Run process sigs) process w)) =
           snd (Restart (worker process) (wstate w))"
proof -
  obtain mid where
    m: "trace (snd (restart_handle (Run process sigs) process w)) =
          trace w @ [FileClose (File (PidRec process)), OsRemove path] @ mid @ [OsExit 0]"
       "mid \<in> shuffles (main_events process M_Unsetenv w) (go_events process G_Restart w)"
    using restart_handle_resolved(2) [OF assms, of sigs] by blast
  have "count_list (main_events process M_Unsetenv w) WorkerRestart = 0"
    by (simp add: spawn_events_def report_def split: option.splits)
  moreover have "count_list (go_events process G_Restart w) WorkerRestart = 1"
    by (simp add: report_def split: option.splits)
  ultimately have c: "count_list mid WorkerRestart = 1"
    using count_list_shuffles [OF m(2), of WorkerRestart] by simp
  have m2: "mid \<in> shuffles
                  (OsUnsetenv (DaemonTag process) #
                   spawn_events process (os_Unsetenv (DaemonTag process) w) @
                   report process (spawn_error w))
                  (WorkerRestart # report process (fst (Restart (worker process) (wstate w))))"
    using m(2) by (simp only: main_events.simps go_events.simps)
  show ?thesis
    using restart_handle_resolved(1,3) [OF assms, of sigs] m(1) m2 c by blast
qed

lemmas run_defs =
  restart_handle_def Remove_def File_Close_def os_Remove_def os_Unsetenv_def os_Exit_def
  File_WriteString_def emit_def restart_threads.simps main_step_def go_step_def pick_main_def
  tick_def call_Restart_def call_Stop_def Run_def Run_with_def Run_parent_def IsChild_def
  os_Getenv_def os_Environ_def Command_def Cmd_Start_def Process_Release_def

lemma http_restart_trace:
  "trace (snd (restart_handle (Run http_process []) http_process child_world)) =
     [FileClose None, OsRemove ''/srv/app/http.pid'', OsUnsetenv ''DAEMON'', WorkerRestart,
      CmdStart \<lparr>Path = ''/usr/bin/httpd'', Args = [''/usr/bin/httpd'', ''start''],
                 Env = [''HOME=/root'', ''DAEMON=true''],
                 Stdin = Some 0, Stdout = Some 1, Stderr = Some 2\<rparr>,
      ProcessRelease, OsExit 0]"
  by (simp add: run_defs http_defs path_defs)

theorem restart_handle_order_witness:
  "SaveFilename (PidRec http_process) child_world = Ret ''/srv/app/http.pid'' \<and>
   args child_world \<noteq> [] \<and>
   fst (restart_handle (Run http_process []) http_process child_world) = Halt (Exited 0) \<and>
   trace (snd (restart_handle (Run http_process []) http_process child_world)) =
     [FileClose None, OsRemove ''/srv/app/http.pid'', OsUnsetenv ''DAEMON'', WorkerRestart,
      CmdStart \<lparr>Path = ''/usr/bin/httpd'', Args = [''/usr/bin/httpd'', ''start''],
                 Env = [''HOME=/root'', ''DAEMON=true''],
                 Stdin = Some 0, Stdout = Some 1, Stderr = Some 2\<rparr>,
      ProcessRelease, OsExit 0] \<and>
   wstate (snd (restart_handle (Run http_process []) http_process child_world)) = 1"
proof -
  have h1: "SaveFilename (PidRec http_process) child_world = Ret ''/srv/app/http.pid''"
    by (rule http_pid_path)
  have h2: "args child_world \<noteq> []" by (simp add: http_defs)
  have r: "snd (Restart (worker http_process) (wstate child_world)) = 1"
    by (simp add: http_defs)
  show ?thesis
    using h1 h2 r http_restart_trace restart_handle_order [OF h1 h2, of "[]"] by simp
qed

text \<open>
  C1 as stated fails: with the relative PID directory of the example and a working
  directory that cannot be determined, \<open>Remove\<close> panics at the start of the handler;
  \<open>Restart\<close> is never called, no child is started and the process does not exit
  with status 0.
\<close>

theorem restart_handle_panic_counterexample:
  "fst (restart_handle (Run http_process []) http_process orphan_world) =
     Halt (Panicked ''getwd: no such file or directory'') \<and>
   trace (snd (restart_handle (Run http_process []) http_process orphan_world)) =
     [FileClose None] \<and>
   wstate (snd (restart_handle (Run http_process []) http_process orphan_world)) = 0"
  by (simp add: restart_handle_def Remove_def File_Close_def emit_def http_defs path_defs)

text \<open>
  C10. When the handler gets as far as calling \<open>Run\<close> again (the path of the PID file
  can be worked out, the argument vector is not empty) and the start of the replacement
  child fails, then under every schedule: the error of the start is written to the output
  stream and nothing else is done about it, no child is released, \<open>Restart\<close> is called
  before the end, and the handler ends in \<open>os.Exit(0)\<close>.
\<close>

theorem restart_handle_spawn_failure:
  assumes "SaveFilename (PidRec process) w = Ret path" and "args w \<noteq> []"
    and "start_result w = Some err"
  shows "fst (restart_handle (Run process sigs) process w) = Halt (Exited 0) \<and>
         (\<exists>mid. trace (snd (restart_handle (Run process sigs) process w)) =
                  trace w @ [FileClose (File (PidRec process)), OsRemove path] @ mid @ [OsExit 0] \<and>
                mid \<in> shuffles
                  [OsUnsetenv (DaemonTag process),
                   CmdStart (child_cmd process (os_Unsetenv (DaemonTag process) w)),
                   WriteString (Pipeline process 1) err]
                  (WorkerRestart # report process (fst (Restart (worker process) (wstate w)))) \<and>
                WorkerRestart \<in> set mid \<and> ProcessRelease \<notin> set mid) \<and>
         wstate (snd (restart_handle (Run process sigs) process w)) =
           snd (Restart (worker process) (wstate w))"
proof -
  obtain mid where
    m: "trace (snd (restart_handle (Run process sigs) process w)) =
          trace w @ [FileClose (File (PidRec process)), OsRemove path] @ mid @ [OsExit 0]"
       "mid \<in> shuffles (main_events process M_Unsetenv w) (go_events process G_Restart w)"
    using restart_handle_resolved(2) [OF assms(1,2), of sigs] by blast
  have me: "main_events process M_Unsetenv w =
      [OsUnsetenv (DaemonTag process),
       CmdStart (child_cmd process (os_Unsetenv (DaemonTag process) w)),
       WriteString (Pipeline process 1) err]"
    using assms(3) by (simp add: spawn_events_def spawn_error_def report_def)
  have m2: "mid \<in> shuffles
      [OsUnsetenv (DaemonTag process),
       CmdStart (child_cmd process (os_Unsetenv (DaemonTag process) w)),
       WriteString (Pipeline process 1) err]
      (WorkerRestart # report process (fst (Restart (worker process) (wstate w))))"
    using m(2) by (simp only: me go_events.simps)
  have s: "WorkerRestart \<in> set mid \<and> ProcessRelease \<notin> set mid"
    using set_shuffles [OF m2] by (auto simp: report_def split: option.splits)
  show ?thesis
    using restart_handle_resolved(1,3) [OF assms(1,2), of sigs] m(1) m2 s by blast
qed

theorem restart_handle_spawn_failure_witness:
  "SaveFilename (PidRec http_process) spawn_fails_world = Ret ''/srv/app/http.pid'' \<and>
   args spawn_fails_world \<noteq> [] \<and>
   start_result spawn_fails_world = Some ''exec format error'' \<and>
   fst (restart_handle (Run http_process []) http_process spawn_fails_world) = Halt (Exited 0) \<and>
   trace (snd (restart_handle (Run http_process []) http_process spawn_fails_world)) =
     [FileClose None, OsRemove ''/srv/app/http.pid'', OsUnsetenv ''DAEMON'', WorkerRestart,
      CmdStart \<lparr>Path = ''/usr/bin/httpd'', Args = [''/usr/bin/httpd'', ''start''],
                 Env = [''HOME=/root'', ''DAEMON=true''],
                 Stdin = Some 0, Stdout = Some 1, Stderr = Some 2\<rparr>,
      WriteString (Some 1) ''exec format error'', OsExit 0]"
proof -
  have h1: "SaveFilename (PidRec http_process) spawn_fails_world = Ret ''/srv/app/http.pid''"
    by (simp add: spawn_fails_world_def http_defs path_defs)
  have h2: "args spawn_fails_world \<noteq> []" by (simp add: spawn_fails_world_def http_defs)
  have h3: "start_result spawn_fails_world = Some ''exec format error''"
    by (simp add: spawn_fails_world_def)
  have t: "trace (snd (restart_handle (Run http_process []) http_process spawn_fails_world)) =
     [FileClose None, OsRemove ''/srv/app/http.pid'', OsUnsetenv ''DAEMON'', WorkerRestart,
      CmdStart \<lparr>Path = ''/usr/bin/httpd'', Args = [''/usr/bin/httpd'', ''start''],
                 Env = [''HOME=/root'', ''DAEMON=true''],
                 Stdin = Some 0, Stdout = Some 1, Stderr = Some 2\<rparr>,
      WriteString (Some 1) ''exec format error'', OsExit 0]"
    by (simp add: run_defs spawn_fails_world_def http_defs path_defs)
  show ?thesis
    using h1 h2 h3 t restart_handle_spawn_failure [OF h1 h2 h3, of "[]"] by simp
qed

section \<open>The stop handler\<close>

lemma call_Stop_frame [simp]:
  "fst (call_Stop process w) = fst (Stop (worker process) (wstate w))"
  "trace (snd (call_Stop process w)) = trace w @ [WorkerStop]"
  "wstate (snd (call_Stop process w)) = snd (Stop (worker process) (wstate w))"
  "cwd (snd (call_Stop process w)) = cwd w" "files (snd (call_Stop process w)) = files w"
  "readonly (snd (call_Stop process w)) = readonly w"
  by (simp_all add: call_Stop_def split: prod.splits)

lemma stop_handle_effect:
  "trace (snd (stop_handle process w)) =
     trace w @ [WorkerStop] @ report process (fst (Stop (worker process) (wstate w))) @
       (case SaveFilename (PidRec process) w of
          Ret path \<Rightarrow> [FileClose (File (PidRec process)), OsRemove path, OsExit 0]
        | Halt h \<Rightarrow> [FileClose (File (PidRec process))]) \<and>
   fst (stop_handle process w) =
     (case SaveFilename (PidRec process) w of Ret path \<Rightarrow> Halt (Exited 0) | Halt h \<Rightarrow> Halt h) \<and>
   wstate (snd (stop_handle process w)) = snd (Stop (worker process) (wstate w)) \<and>
   files (snd (stop_handle process w)) =
     (case SaveFilename (PidRec process) w of
        Ret path \<Rightarrow> if path \<in> readonly w then files w else (files w)(path := None)
      | Halt h \<Rightarrow> files w)"
proof -
  obtain e1 w1 where cs: "call_Stop process w = (e1, w1)"
    by (cases "call_Stop process w")
  have e1: "e1 = fst (Stop (worker process) (wstate w))"
    using cs call_Stop_frame(1) [of process w] by simp
  have w1: "trace w1 = trace w @ [WorkerStop]"
    "wstate w1 = snd (Stop (worker process) (wstate w))"
    "cwd w1 = cwd w" "files w1 = files w" "readonly w1 = readonly w"
    using cs call_Stop_frame [of process w] by simp_all
  let ?w2 = "case e1 of None \<Rightarrow> w1 | Some e \<Rightarrow> File_WriteString (Pipeline process 1) e w1"
  have sh: "stop_handle process w =
      (case Remove (PidRec process) ?w2 of
         (Halt h, w3) \<Rightarrow> (Halt h, w3)
       | (Ret u, w3) \<Rightarrow> os_Exit 0 w3)"
    by (simp add: stop_handle_def cs Let_def)
  have fr: "cwd ?w2 = cwd w" "files ?w2 = files w" "readonly ?w2 = readonly w"
    "wstate ?w2 = snd (Stop (worker process) (wstate w))"
    "trace ?w2 = trace w @ [WorkerStop] @ report process (fst (Stop (worker process) (wstate w)))"
    using w1 e1 by (simp_all add: report_def split: option.splits)
  have sf: "SaveFilename (PidRec process) ?w2 = SaveFilename (PidRec process) w"
    using fr(1) by (rule SaveFilename_cwd) simp_all
  show ?thesis
  proof (cases "SaveFilename (PidRec process) w")
    case (Ret path)
    then have "Remove (PidRec process) ?w2 =
        (Ret (), snd (os_Remove path (File_Close (File (PidRec process)) ?w2)))"
      using sf Remove_resolved [of "PidRec process" ?w2 path] by simp
    then show ?thesis
      using Ret fr by (simp add: sh os_Exit_def os_Remove_files)
  next
    case (Halt h)
    then have "Remove (PidRec process) ?w2 = (Halt h, File_Close (File (PidRec process)) ?w2)"
      using sf Remove_unresolved [of "PidRec process" ?w2 h] by simp
    then show ?thesis
      using Halt fr by (simp add: sh)
  qed
qed

text \<open>
  C2, as the code has it. The stop handler calls \<open>Stop\<close> once; it writes the error text
  to the output stream exactly when \<open>Stop\<close> returned an error; with or without an error
  it goes on to \<open>Remove\<close>. When the path of the PID file can be worked out, \<open>Remove\<close>
  closes the record's file and removes the PID file (which is gone unless the operating
  system refuses), and the process exits with status 0. When the path cannot be worked
  out, \<open>Remove\<close> panics after closing the file and the handler ends there.
\<close>

theorem stop_handle_sequence:
  "trace (snd (stop_handle process w)) =
     trace w @ [WorkerStop] @ report process (fst (Stop (worker process) (wstate w))) @
       (case SaveFilename (PidRec process) w of
          Ret path \<Rightarrow> [FileClose (File (PidRec process)), OsRemove path, OsExit 0]
        | Halt h \<Rightarrow> [FileClose (File (PidRec process))]) \<and>
   fst (stop_handle process w) =
     (case SaveFilename (PidRec process) w of Ret path \<Rightarrow> Halt (Exited 0) | Halt h \<Rightarrow> Halt h) \<and>
   wstate (snd (stop_handle process w)) = snd (Stop (worker process) (wstate w)) \<and>
   files (snd (stop_handle process w)) =
     (case SaveFilename (PidRec process) w of
        Ret path \<Rightarrow> if path \<in> readonly w then files w else (files w)(path := None)
      | Halt h \<Rightarrow> files w)"
  by (rule stop_handle_effect)

theorem stop_handle_sequence_witness:
  "trace (snd (stop_handle http_process child_world)) =
     [WorkerStop, WriteString (Some 1) ''shutdown failed'', FileClose None,
      OsRemove ''/srv/app/http.pid'', OsExit 0] \<and>
   fst (stop_handle http_process child_world) = Halt (Exited 0) \<and>
   wstate (snd (stop_handle http_process child_world)) = 1"
  using stop_handle_sequence [of http_process child_world] http_pid_path
  by (simp add: report_def http_defs)

text \<open>
  C2 as stated fails: with the relative PID directory of the example and a working
  directory that cannot be determined, the handler panics in \<open>Remove\<close>; the PID file is
  not removed and the process does not exit with status 0.
\<close>

theorem stop_handle_panic_counterexample:
  "fst (stop_handle http_process orphan_world) =
     Halt (Panicked ''getwd: no such file or directory'') \<and>
   trace (snd (stop_handle http_process orphan_world)) =
     [WorkerStop, WriteString (Some 1) ''shutdown failed'', FileClose None]"
  by (simp add: stop_handle_def call_Stop_def Remove_def File_Close_def File_WriteString_def
      emit_def http_defs path_defs)

section \<open>The interrupt handler\<close>

lemma interrupt_handle_stop_handle: "interrupt_handle process w = stop_handle process w"
  by (simp add: interrupt_handle_def stop_handle_def)

lemma NewProcess_handlers:
  "SignalHandlers (NewProcess wk w0) Interrupt = Some InterruptHandle"
  "SignalHandlers (NewProcess wk w0) SIGUSR1 = Some StopHandle"
  "SignalHandlers (NewProcess wk w0) SIGUSR2 = Some RestartHandle"
  by (simp_all add: NewProcess_def registerDefaultInterruptHandle_def
      registerDefaultStopHandle_def registerDefaultRestartHandle_def On_def)

text \<open>
  C3, as the code has it. A process built by \<open>NewProcess\<close> has the interrupt handler
  registered for the interrupt signal and the stop handler for SIGUSR1; the signal loop
  answers either signal by running the handler registered for it. The two handlers are the
  same function of process and state, so the loop does the same on either signal. What
  each of them does: it calls \<open>Stop\<close> once, writes the error text to the output stream
  exactly when \<open>Stop\<close> returned an error, and goes on to \<open>Remove\<close>; when the path of the
  PID file can be worked out the record's file is closed, the PID file removed and the
  process exits with status 0; when it cannot, \<open>Remove\<close> panics after closing the file.
\<close>

theorem interrupt_stop_identical:
  "SignalHandlers (NewProcess wk w0) Interrupt = Some InterruptHandle \<and>
   SignalHandlers (NewProcess wk w0) SIGUSR1 = Some StopHandle \<and>
   call_handler run process InterruptHandle w = interrupt_handle process w \<and>
   call_handler run process StopHandle w = stop_handle process w \<and>
   Listen (NewProcess wk w0) (Interrupt # sigs) w =
     (case interrupt_handle (NewProcess wk w0) w of
        (Halt h, w1) \<Rightarrow> (h, w1)
      | (Ret u, w1) \<Rightarrow> Listen (NewProcess wk w0) sigs w1) \<and>
   Listen (NewProcess wk w0) (SIGUSR1 # sigs) w =
     (case stop_handle (NewProcess wk w0) w of
        (Halt h, w1) \<Rightarrow> (h, w1)
      | (Ret u, w1) \<Rightarrow> Listen (NewProcess wk w0) sigs w1) \<and>
   interrupt_handle process w = stop_handle process w \<and>
   Listen (NewProcess wk w0) (Interrupt # sigs) w = Listen (NewProcess wk w0) (SIGUSR1 # sigs) w \<and>
   trace (snd (interrupt_handle process w)) =
     trace w @ [WorkerStop] @ report process (fst (Stop (worker process) (wstate w))) @
       (case SaveFilename (PidRec process) w of
          Ret path \<Rightarrow> [FileClose (File (PidRec process)), OsRemove path, OsExit 0]
        | Halt h \<Rightarrow> [FileClose (File (PidRec process))]) \<and>
   fst (interrupt_handle process w) =
     (case SaveFilename (PidRec process) w of Ret path \<Rightarrow> Halt (Exited 0) | Halt h \<Rightarrow> Halt h) \<and>
   wstate (snd (interrupt_handle process w)) = snd (Stop (worker process) (wstate w)) \<and>
   files (snd (interrupt_handle process w)) =
     (case SaveFilename (PidRec process) w of
        Ret path \<Rightarrow> if path \<in> readonly w then files w else (files w)(path := None)
      | Halt h \<Rightarrow> files w)"
proof -
  have d: "call_handler run process InterruptHandle w = interrupt_handle process w"
    "call_handler run process StopHandle w = stop_handle process w"
    by (simp_all add: call_handler_def)
  have l1: "Listen (NewProcess wk w0) (Interrupt # sigs) w =
     (case interrupt_handle (NewProcess wk w0) w of
        (Halt h, w1) \<Rightarrow> (h, w1)
      | (Ret u, w1) \<Rightarrow> Listen (NewProcess wk w0) sigs w1)"
    by (simp add: NewProcess_handlers call_handler_def)
  have l2: "Listen (NewProcess wk w0) (SIGUSR1 # sigs) w =
     (case stop_handle (NewProcess wk w0) w of
        (Halt h, w1) \<Rightarrow> (h, w1)
      | (Ret u, w1) \<Rightarrow> Listen (NewProcess wk w0) sigs w1)"
    by (simp add: NewProcess_handlers call_handler_def)
  have l3: "Listen (NewProcess wk w0) (Interrupt # sigs) w =
      Listen (NewProcess wk w0) (SIGUSR1 # sigs) w"
    by (simp only: l1 l2 interrupt_handle_stop_handle)
  show ?thesis
    using stop_handle_effect [of process w]
    by (simp only: NewProcess_handlers d l1 [symmetric] l2 [symmetric] l3
        interrupt_handle_stop_handle)
qed

theorem interrupt_stop_identical_witness:
  "interrupt_handle http_process child_world = stop_handle http_process child_world \<and>
   trace (snd (interrupt_handle http_process child_world)) =
     [WorkerStop, WriteString (Some 1) ''shutdown failed'', FileClose None,
      OsRemove ''/srv/app/http.pid'', OsExit 0] \<and>
   fst (interrupt_handle http_process child_world) = Halt (Exited 0) \<and>
   wstate (snd (interrupt_handle http_process child_world)) = 1"
proof -
  note handlers =
    interrupt_stop_identical [of http_worker child_world "Run http_process []" http_process
      child_world "[]"]
  have same: "interrupt_handle http_process child_world = stop_handle http_process child_world"
    using handlers by blast
  have tr: "trace (snd (interrupt_handle http_process child_world)) =
     trace child_world @ [WorkerStop] @
       report http_process (fst (Stop (worker http_process) (wstate child_world))) @
       (case SaveFilename (PidRec http_process) child_world of
          Ret path \<Rightarrow> [FileClose (File (PidRec http_process)), OsRemove path, OsExit 0]
        | Halt h \<Rightarrow> [FileClose (File (PidRec http_process))])"
    using handlers by blast
  have res: "fst (interrupt_handle http_process child_world) =
     (case SaveFilename (PidRec http_process) child_world of
        Ret path \<Rightarrow> Halt (Exited 0) | Halt h \<Rightarrow> Halt h)"
    using handlers by blast
  have ws: "wstate (snd (interrupt_handle http_process child_world)) =
     snd (Stop (worker http_process) (wstate child_world))"
    using handlers by blast
  show ?thesis
  proof (intro conjI)
    show "interrupt_handle http_process child_world = stop_handle http_process child_world"
      by (rule same)
    show "trace (snd (interrupt_handle http_process child_world)) =
       [WorkerStop, WriteString (Some 1) ''shutdown failed'', FileClose None,
        OsRemove ''/srv/app/http.pid'', OsExit 0]"
      by (simp add: tr http_pid_path) (simp add: report_def http_defs)
    show "fst (interrupt_handle http_process child_world) = Halt (Exited 0)"
      by (simp add: res http_pid_path)
    show "wstate (snd (interrupt_handle http_process child_world)) = 1"
      by (simp add: ws) (simp add: http_defs)
  qed
qed

text \<open>
  C3 as stated fails: the two handlers agree, but the sequence they share does not always
  end in the removal of the PID file and exit status 0. With the relative PID directory of
  the example and a working directory that cannot be determined, the interrupt handler,
  like the stop handler, panics in \<open>Remove\<close>.
\<close>

theorem interrupt_handle_panic_counterexample:
  "fst (interrupt_handle http_process orphan_world) =
     Halt (Panicked ''getwd: no such file or directory'') \<and>
   trace (snd (interrupt_handle http_process orphan_world)) =
     [WorkerStop, WriteString (Some 1) ''shutdown failed'', FileClose None] \<and>
   interrupt_handle http_process orphan_world = stop_handle http_process orphan_world"
  by (simp add: interrupt_handle_def stop_handle_def call_Stop_def Remove_def File_Close_def
      File_WriteString_def emit_def http_defs path_defs)

end
